theory Spec2Isabelle
  imports
    Complex_Main
    "HOL-Library.AList"
    "HOL-Library.Char_ord"
    "HOL-Library.List_Lexorder"
    "HOL-Library.Multiset"
begin

section \<open>Python values and exceptions\<close>

text \<open>
  The harness is Python. Exceptions are values of \<open>py_error\<close>; a function that may raise
  returns \<open>py_error + 'a\<close> with \<open>Inl\<close> for the exception. Strings are ASCII
  \<open>char list\<close>s.
\<close>

datatype py_error =
    ValueError string
  | KeyError string
  | TypeError
  | AttributeError
  | JSONDecodeError
  | YAMLError string
  | RequestException string
  | HTTPError int
  | PyException string

text \<open>
  Documents read by \<open>json.load\<close>; a dict keeps its keys in insertion order, and its
  keys are distinct. Numbers are integers here: no function of the model looks into one.
\<close>

datatype json =
    JNull
  | JBool bool
  | JNum int
  | JStr string
  | JArr "json list"
  | JObj "(string \<times> json) list"

text \<open>Modelled from the spec: \<open>constants.py\<close> is not among the sources; \<open>HTTP_OK\<close> is
  the status the spec calls a 200 response.\<close>

definition HTTP_OK :: int where
  "HTTP_OK = 200"

text \<open>
  Response times and rates are Python floats. A float is modelled by the real number it
  denotes (infinities and NaN are left out). What float arithmetic returns, that is how it
  rounds, is not decided by this code, so the operations the summary uses are parameters:
  \<open>sum\<close> of a list of floats, true division and multiplication.
\<close>

record float_arith =
  fsum :: "real list \<Rightarrow> real"
  fdiv :: "real \<Rightarrow> real \<Rightarrow> real"
  fmul :: "real \<Rightarrow> real \<Rightarrow> real"

datatype log_level = DEBUG | INFO | WARNING | ERROR

section \<open>The result aggregator (\<open>conftest.py\<close>)\<close>

text \<open>
  \<open>_endpoint_results\<close> is a \<open>defaultdict\<close> from endpoint path to a dict with the keys
  \<open>status_codes\<close>, \<open>response_times\<close>, \<open>test_count\<close>, \<open>passed\<close>, \<open>failed\<close>. The
  inner dict always has exactly these keys, so it is a record; the outer dict is an
  association list in insertion order with distinct keys.
\<close>

record endpoint_result =
  status_codes :: "int list"
  response_times :: "real list"
  test_count :: int
  passed :: int
  failed :: int

type_synonym results = "(string \<times> endpoint_result) list"

text \<open>The dict literal of the default factory, lines 30 to 36.\<close>

definition default_factory :: endpoint_result where
  "default_factory =
     \<lparr>status_codes = [], response_times = [], test_count = 0, passed = 0, failed = 0\<rparr>"

datatype field_value = IntList "int list" | FloatList "real list" | IntVal int

text \<open>The inner dict as Python sees it: its items, in the order of the literal.\<close>

definition items :: "endpoint_result \<Rightarrow> (string \<times> field_value) list" where
  "items d =
     [(''status_codes'', IntList (status_codes d)),
      (''response_times'', FloatList (response_times d)),
      (''test_count'', IntVal (test_count d)),
      (''passed'', IntVal (passed d)),
      (''failed'', IntVal (failed d))]"

text \<open>The empty aggregator the module creates at import time.\<close>

definition endpoint_results_init :: results where
  "endpoint_results_init = []"

text \<open>\<open>_endpoint_results[k]\<close>: a missing key is inserted with the factory's value.\<close>

definition getitem :: "results \<Rightarrow> string \<Rightarrow> results \<times> endpoint_result" where
  "getitem r k =
     (case map_of r k of
        Some d \<Rightarrow> (r, d)
      | None \<Rightarrow> (r @ [(k, default_factory)], default_factory))"

text \<open>
  The statements by which test functions write to the aggregator. Every write in the
  test modules has one of five forms:
  \<^verbatim>\<open>_endpoint_results[k]["status_codes"].append(code)\<close>,
  \<^verbatim>\<open>_endpoint_results[k]["response_times"].append(t)\<close>,
  \<^verbatim>\<open>_endpoint_results[k]["test_count"] += 1\<close>,
  \<^verbatim>\<open>_endpoint_results[k]["passed"] += 1\<close> and
  \<^verbatim>\<open>_endpoint_results[k]["failed"] += 1\<close>.
\<close>

datatype record_stmt =
    AppendStatus int
  | AppendTime real
  | IncTestCount
  | IncPassed
  | IncFailed

fun apply_stmt :: "record_stmt \<Rightarrow> endpoint_result \<Rightarrow> endpoint_result" where
  "apply_stmt (AppendStatus c) d = d\<lparr>status_codes := status_codes d @ [c]\<rparr>"
| "apply_stmt (AppendTime t) d = d\<lparr>response_times := response_times d @ [t]\<rparr>"
| "apply_stmt IncTestCount d = d\<lparr>test_count := test_count d + 1\<rparr>"
| "apply_stmt IncPassed d = d\<lparr>passed := passed d + 1\<rparr>"
| "apply_stmt IncFailed d = d\<lparr>failed := failed d + 1\<rparr>"

definition exec_stmt :: "string \<Rightarrow> record_stmt \<Rightarrow> results \<Rightarrow> results" where
  "exec_stmt k s r = (case getitem r k of (r', d) \<Rightarrow> AList.update k (apply_stmt s d) r')"

definition exec_stmts :: "string \<Rightarrow> record_stmt list \<Rightarrow> results \<Rightarrow> results" where
  "exec_stmts k ss r = fold (exec_stmt k) ss r"

text \<open>What a key holds, \<open>default_factory\<close> standing for a key not yet created.\<close>

definition entry :: "results \<Rightarrow> string \<Rightarrow> endpoint_result" where
  "entry r k = snd (getitem r k)"

section \<open>The session summary (\<open>_print_endpoint_discovery_summary\<close>)\<close>

subsection \<open>\<open>x.split('/')[-1]\<close> and \<open>int\<close>\<close>

fun split_py :: "char \<Rightarrow> string \<Rightarrow> string list" where
  "split_py sep [] = [[]]"
| "split_py sep (c # cs) =
     (if c = sep then [] # split_py sep cs
      else (case split_py sep cs of
              [] \<Rightarrow> [[c]]
            | w # ws \<Rightarrow> (c # w) # ws))"

definition last_segment :: "string \<Rightarrow> string" where
  "last_segment x = last (split_py (CHR ''/'') x)"

text \<open>
  Python's \<open>int(s)\<close> in base 10 on an ASCII string: surrounding whitespace (space,
  tab, line feed, vertical tab, form feed, carriage return) is stripped, one sign is
  allowed, then digits, with single underscores between digits; more than 4300 digits
  are refused (the interpreter's default limit).
\<close>

definition is_space :: "char \<Rightarrow> bool" where
  "is_space c = (c \<in> set [CHR '' '', CHR 0x09, CHR 0x0A, CHR 0x0B, CHR 0x0C, CHR 0x0D])"

definition is_digit :: "char \<Rightarrow> bool" where
  "is_digit c = (c \<in> set ''0123456789'')"

definition digit_val :: "char \<Rightarrow> int" where
  "digit_val c = int (of_char c) - 48"

definition strip :: "string \<Rightarrow> string" where
  "strip s = rev (dropWhile is_space (rev (dropWhile is_space s)))"

fun parse_digits :: "int \<Rightarrow> bool \<Rightarrow> string \<Rightarrow> int option" where
  "parse_digits acc prev_digit [] = (if prev_digit then Some acc else None)"
| "parse_digits acc prev_digit (c # cs) =
     (if is_digit c then parse_digits (10 * acc + digit_val c) True cs
      else if c = CHR ''_'' \<and> prev_digit then parse_digits acc False cs
      else None)"

definition max_str_digits :: nat where
  "max_str_digits = 4300"

definition py_int :: "string \<Rightarrow> py_error + int" where
  "py_int s =
     (let t = strip s;
          body = (case t of [] \<Rightarrow> [] | c # cs \<Rightarrow> if c = CHR ''-'' \<or> c = CHR ''+'' then cs else t);
          neg = (case t of [] \<Rightarrow> False | c # cs \<Rightarrow> c = CHR ''-'')
      in if max_str_digits < length (filter is_digit body) then Inl (ValueError s)
         else (case parse_digits 0 False body of
                 None \<Rightarrow> Inl (ValueError s)
               | Some n \<Rightarrow> Inr (if neg then - n else n)))"

definition sort_key_of :: "string \<Rightarrow> py_error + int" where
  "sort_key_of x = py_int (last_segment x)"

text \<open>
  \<open>sorted(keys, key=...)\<close>: the key function runs on every element in order (the
  first failure is raised), then the elements are sorted stably by their keys.
\<close>

fun decorate :: "string list \<Rightarrow> py_error + (int \<times> string) list" where
  "decorate [] = Inr []"
| "decorate (x # xs) =
     (case sort_key_of x of
        Inl e \<Rightarrow> Inl e
      | Inr n \<Rightarrow> (case decorate xs of Inl e \<Rightarrow> Inl e | Inr ps \<Rightarrow> Inr ((n, x) # ps)))"

definition sorted_endpoints :: "results \<Rightarrow> py_error + string list" where
  "sorted_endpoints r =
     (case decorate (map fst r) of
        Inl e \<Rightarrow> Inl e
      | Inr ps \<Rightarrow> Inr (map snd (sort_key fst ps)))"

subsection \<open>One endpoint's block\<close>

datatype status_text = OK | UNSTABLE | FAILED

definition has_success :: "endpoint_result \<Rightarrow> bool" where
  "has_success d = (200 \<in> set (status_codes d))"

text \<open>\<open>status_distribution[code] = status_distribution.get(code, 0) + 1\<close>\<close>

definition dict_get :: "('k \<times> 'v) list \<Rightarrow> 'k \<Rightarrow> 'v \<Rightarrow> 'v" where
  "dict_get m k dflt = (case map_of m k of None \<Rightarrow> dflt | Some v \<Rightarrow> v)"

definition count_code :: "int \<Rightarrow> (int \<times> nat) list \<Rightarrow> (int \<times> nat) list" where
  "count_code code sd = AList.update code (dict_get sd code 0 + 1) sd"

definition status_distribution :: "int list \<Rightarrow> (int \<times> nat) list" where
  "status_distribution codes = fold count_code codes []"

text \<open>\<open>sum(times) / len(times) if times else 0\<close>\<close>

definition avg_time :: "float_arith \<Rightarrow> real list \<Rightarrow> real" where
  "avg_time fa ts = (if ts \<noteq> [] then fdiv fa (fsum fa ts) (real (length ts)) else 0)"

definition classify :: "endpoint_result \<Rightarrow> status_text" where
  "classify d =
     (let sd = status_distribution (status_codes d)
      in if has_success d \<and> length sd = 1 \<and> 200 \<in> fst ` set sd then OK
         else if has_success d then UNSTABLE
         else FAILED)"

record summary_block =
  block_endpoint :: string
  block_status :: status_text
  block_tests :: int
  block_passed :: int
  block_failed :: int
  block_codes :: "(int \<times> nat) list"
  block_avg_time :: real

definition block_of :: "float_arith \<Rightarrow> results \<Rightarrow> string \<Rightarrow> summary_block" where
  "block_of fa r k =
     (let d = entry r k
      in \<lparr>block_endpoint = k,
          block_status = classify d,
          block_tests = test_count d,
          block_passed = passed d,
          block_failed = failed d,
          block_codes = sort_key fst (status_distribution (status_codes d)),
          block_avg_time = avg_time fa (response_times d)\<rparr>)"

subsection \<open>The whole summary\<close>

text \<open>
  What the function hands to the logger, line by line. A line that is a fixed text is
  \<open>Text\<close>; a formatted line keeps the values it is formatted from. The line of the
  status codes is kept without the names that \<open>HTTPStatus\<close> gives the codes, and the
  icon of an endpoint's first line is given by its status.
\<close>

datatype summary_line =
    Text string
  | EndpointLine status_text string
  | StatusLine status_text
  | TestsLine int int int
  | CodesLine "(int \<times> nat) list"
  | AvgTimeLine real
  | StableLine nat
  | UnstableLine nat
  | FailedLine nat
  | TotalsLine int int real

type_synonym log_record = "log_level \<times> summary_line"

text \<open>Lines 126 to 128, logged before the keys are sorted.\<close>

definition summary_header :: "log_record list" where
  "summary_header =
     [(INFO, Text (CHR 0x0A # replicate 80 (CHR ''=''))),
      (INFO, Text ''ENDPOINT DISCOVERY SUMMARY''),
      (INFO, Text (replicate 80 (CHR ''='')))]"

text \<open>Lines 172 to 176, the five lines of one endpoint.\<close>

definition block_lines :: "summary_block \<Rightarrow> log_record list" where
  "block_lines b =
     [(INFO, EndpointLine (block_status b) (block_endpoint b)),
      (INFO, StatusLine (block_status b)),
      (INFO, TestsLine (block_tests b) (block_passed b) (block_failed b)),
      (INFO, CodesLine (block_codes b)),
      (INFO, AvgTimeLine (block_avg_time b))]"

record overall_results =
  stable_endpoints :: nat
  unstable_endpoints :: nat
  failed_endpoints :: nat
  total_tests :: int
  total_passed :: int
  success_rate :: real

definition overall :: "float_arith \<Rightarrow> results \<Rightarrow> string list \<Rightarrow> overall_results" where
  "overall fa r ks =
     (let successful = filter (\<lambda>k. classify (entry r k) = OK) ks;
          failed_eps = filter (\<lambda>k. classify (entry r k) \<noteq> OK) ks;
          tests = sum_list (map (test_count \<circ> snd) r);
          pass = sum_list (map (passed \<circ> snd) r)
      in \<lparr>stable_endpoints = length successful,
          unstable_endpoints =
            length (filter (\<lambda>e. status_codes (entry r e) \<noteq> [] \<and> 200 \<in> set (status_codes (entry r e)))
                      failed_eps),
          failed_endpoints =
            length (filter (\<lambda>e. status_codes (entry r e) \<noteq> [] \<and> 200 \<notin> set (status_codes (entry r e)))
                      failed_eps),
          total_tests = tests,
          total_passed = pass,
          success_rate =
            (if tests > 0 then fmul fa (fdiv fa (real_of_int pass) (real_of_int tests)) 100 else 0)\<rparr>)"

text \<open>Lines 178 to 190.\<close>

definition overall_lines :: "overall_results \<Rightarrow> log_record list" where
  "overall_lines res =
     [(INFO, Text (CHR 0x0A # replicate 80 (CHR ''-''))),
      (INFO, Text ''OVERALL RESULTS''),
      (INFO, Text (replicate 80 (CHR ''-''))),
      (INFO, StableLine (stable_endpoints res)),
      (INFO, UnstableLine (unstable_endpoints res)),
      (INFO, FailedLine (failed_endpoints res)),
      (INFO, TotalsLine (total_tests res) (total_passed res) (success_rate res)),
      (INFO, Text (replicate 80 (CHR ''='') @ [CHR 0x0A]))]"

text \<open>
  The function returns what it logged and how it ended. On an empty aggregator it logs
  one debug line and returns. Otherwise the header is logged first; an exception of the
  sort key leaves the function there, after the header and before any endpoint's lines.
\<close>

definition print_endpoint_discovery_summary ::
  "float_arith \<Rightarrow> results \<Rightarrow> log_record list \<times> (py_error + unit)" where
  "print_endpoint_discovery_summary fa r =
     (if r = [] then
        ([(DEBUG, Text ''No endpoint discovery tests executed in this session'')], Inr ())
      else (case sorted_endpoints r of
              Inl e \<Rightarrow> (summary_header, Inl e)
            | Inr ks \<Rightarrow>
                (summary_header @ concat (map (\<lambda>k. block_lines (block_of fa r k)) ks) @
                   overall_lines (overall fa r ks),
                 Inr ())))"

section \<open>Test functions that write to the aggregator\<close>

text \<open>A session is the sequence of writes its tests perform, each under its endpoint key.\<close>

definition run_session :: "(string \<times> record_stmt) list \<Rightarrow> results \<Rightarrow> results" where
  "run_session ws r = fold (\<lambda>(k, s). exec_stmt k s) ws r"

text \<open>\<open>TestEndpointsCommon.test_basic_get\<close>, lines 47 to 54, after the response arrived.\<close>

definition test_basic_get :: "string \<Rightarrow> int \<Rightarrow> real \<Rightarrow> results \<Rightarrow> results" where
  "test_basic_get endpoint_path status_code elapsed r =
     exec_stmts endpoint_path
       [AppendStatus status_code, AppendTime elapsed, IncTestCount,
        if status_code = HTTP_OK then IncPassed else IncFailed] r"

text \<open>
  \<open>test_concurrent_requests\<close> of \<open>test_endpoint_1_discovery.py\<close>: \<open>make_request\<close>
  returns the status and time of a response, or the status \<open>"ERROR"\<close> for any exception;
  lines 134 to 142 record one such result.
\<close>

datatype request_outcome = Response int real | Error string

definition record_result :: "string \<Rightarrow> request_outcome \<Rightarrow> results \<Rightarrow> results" where
  "record_result test_endpoint res r =
     (case res of
        Response status t \<Rightarrow>
          exec_stmts test_endpoint
            (IncTestCount #
             (if status = HTTP_OK then [AppendStatus status, AppendTime t, IncPassed]
              else [IncFailed, AppendStatus status])) r
      | Error e \<Rightarrow> exec_stmts test_endpoint [IncTestCount, IncFailed] r)"

text \<open>
  \<open>do_request\<close> of \<open>test_concurrent_requests.py\<close>, lines 137 to 157. The outcome of
  \<open>requests.get\<close> is a response with its status code, or a \<open>RequestException\<close>;
  \<open>elapsed\<close> is the clock difference the worker computes in either branch.
\<close>

datatype get_outcome = Responded int | Raised string

record request_result =
  res_i :: nat
  res_status :: int
  res_time :: real
  res_ok :: bool
  res_error :: "string option"

definition do_request ::
  "string \<Rightarrow> nat \<Rightarrow> get_outcome \<Rightarrow> real \<Rightarrow> results \<Rightarrow> results \<times> request_result" where
  "do_request endpoint_path i outcome elapsed r =
     (case outcome of
        Responded status_code \<Rightarrow>
          (exec_stmts endpoint_path
             [AppendStatus status_code, AppendTime elapsed, IncTestCount,
              if status_code = 200 then IncPassed else IncFailed] r,
           \<lparr>res_i = i, res_status = status_code, res_time = elapsed,
            res_ok = (status_code = 200), res_error = None\<rparr>)
      | Raised e \<Rightarrow>
          (exec_stmts endpoint_path [IncTestCount, IncFailed] r,
           \<lparr>res_i = i, res_status = 0, res_time = elapsed, res_ok = False, res_error = Some e\<rparr>))"

text \<open>
  How an entry may change: both lists are extended at the end, and each counter is raised
  by a non-negative amount.
\<close>

definition grows :: "endpoint_result \<Rightarrow> endpoint_result \<Rightarrow> bool" where
  "grows d d' \<longleftrightarrow>
     take (length (status_codes d)) (status_codes d') = status_codes d \<and>
     take (length (response_times d)) (response_times d') = response_times d \<and>
     0 \<le> test_count d' - test_count d \<and>
     0 \<le> passed d' - passed d \<and>
     0 \<le> failed d' - failed d"

section \<open>The world outside the process\<close>

text \<open>
  HTTP requests go through \<open>requests\<close>; what the server answers is not decided by this
  code, so the network is a function from the request to a response or an exception.
  The YAML and JSON libraries are parameters in the same way: what \<open>yaml.safe_load\<close>
  makes of a text, what \<open>json.loads\<close> makes of a body, and for \<open>json.dump\<close> either the
  exception it raises or the document that \<open>json.load\<close> reads back from what it wrote.
  Opening a file for writing may fail as well. Four constants of \<open>constants.py\<close>, which
  is not among the sources, are parameters too.
\<close>

text \<open>
  A value that \<open>yaml.safe_load\<close> returns. Mapping keys need not be strings, and
  \<open>YOther\<close> stands for the values JSON has no form for (a date, a timestamp, a set,
  binary data), named by their YAML text.
\<close>

datatype yaml =
    YNull
  | YBool bool
  | YInt int
  | YStr string
  | YSeq "yaml list"
  | YMap "(yaml \<times> yaml) list"
  | YOther string

datatype http_method = GET | POST

record http_request =
  req_method :: http_method
  req_url :: string
  req_json :: "json option"
  req_timeout :: real
  req_verify :: bool

record http_response =
  status_code :: int
  text_of :: string

record env =
  http :: "http_request \<Rightarrow> py_error + http_response"
  yaml_safe_load :: "string \<Rightarrow> py_error + yaml"
  json_loads :: "string \<Rightarrow> py_error + json"
  json_dump :: "yaml \<Rightarrow> py_error + json"
  open_w :: "string \<Rightarrow> py_error + unit"
  SSL_VERIFY :: bool
  OPENAPI_YAML_ENDPOINT :: string
  SCHEMA_DOWNLOAD_TIMEOUT :: real
  AUTH_GENERATE_ENDPOINT :: string
  AUTH_TIMEOUT :: real

text \<open>
  What a file holds: a JSON document, or text that \<open>json.load\<close> cannot read (what is
  left of a file that was opened for writing when \<open>json.dump\<close> raised).
\<close>

datatype file_content = Document json | Unreadable

text \<open>
  What a call leaves behind: the files on disk (a path holds a content or is absent), the
  requests sent, the contents written, and the log records.
\<close>

record world =
  files :: "string \<rightharpoonup> file_content"
  requests_sent :: "http_request list"
  written :: "(string \<times> file_content) list"
  logged :: "(log_level \<times> string) list"

definition log :: "log_level \<Rightarrow> string \<Rightarrow> world \<Rightarrow> world" where
  "log lvl msg w = w\<lparr>logged := logged w @ [(lvl, msg)]\<rparr>"

text \<open>\<open>str\<close> of an integer, for the f-strings.\<close>

definition digit_char :: "nat \<Rightarrow> char" where
  "digit_char n = char_of (48 + n)"

function str_nat :: "nat \<Rightarrow> string" where
  "str_nat n = (if n < 10 then [digit_char n] else str_nat (n div 10) @ [digit_char (n mod 10)])"
  by pat_completeness auto
termination
  by (relation "measure id") auto

declare str_nat.simps [simp del]

definition str_int :: "int \<Rightarrow> string" where
  "str_int i = (if i < 0 then CHR ''-'' # str_nat (nat (- i)) else str_nat (nat i))"

text \<open>\<open>Response.raise_for_status\<close>: an \<open>HTTPError\<close> for a 4xx or 5xx status.\<close>

definition raise_for_status :: "http_response \<Rightarrow> py_error + unit" where
  "raise_for_status resp =
     (if 400 \<le> status_code resp \<and> status_code resp < 600 then Inl (HTTPError (status_code resp))
      else Inr ())"

text \<open>The classes that \<open>except requests.exceptions.RequestException\<close> catches.\<close>

fun is_request_exception :: "py_error \<Rightarrow> bool" where
  "is_request_exception (RequestException m) = True"
| "is_request_exception (HTTPError c) = True"
| "is_request_exception e = False"

section \<open>Python operations on JSON values\<close>

fun substring_of :: "string \<Rightarrow> string \<Rightarrow> bool" where
  "substring_of p [] = (p = [])"
| "substring_of p (c # cs) = (take (length p) (c # cs) = p \<or> substring_of p cs)"

text \<open>\<open>d.get(key, default)\<close>, a method of dicts only.\<close>

fun py_get :: "json \<Rightarrow> string \<Rightarrow> json \<Rightarrow> py_error + json" where
  "py_get (JObj kvs) k dflt = Inr (case map_of kvs k of None \<Rightarrow> dflt | Some v \<Rightarrow> v)"
| "py_get j k dflt = Inl AttributeError"

text \<open>\<open>key in x\<close> for a string key.\<close>

fun py_contains :: "string \<Rightarrow> json \<Rightarrow> py_error + bool" where
  "py_contains k (JObj kvs) = Inr (k \<in> set (map fst kvs))"
| "py_contains k (JArr xs) = Inr (JStr k \<in> set xs)"
| "py_contains k (JStr s) = Inr (substring_of k s)"
| "py_contains k j = Inl TypeError"

text \<open>\<open>x[key]\<close> for a string key.\<close>

fun py_getitem :: "json \<Rightarrow> string \<Rightarrow> py_error + json" where
  "py_getitem (JObj kvs) k = (case map_of kvs k of None \<Rightarrow> Inl (KeyError k) | Some v \<Rightarrow> Inr v)"
| "py_getitem j k = Inl TypeError"

text \<open>\<open>d.keys()\<close>, a method of dicts only.\<close>

fun py_keys :: "json \<Rightarrow> py_error + string list" where
  "py_keys (JObj kvs) = Inr (map fst kvs)"
| "py_keys j = Inl AttributeError"

text \<open>\<open>str.lower\<close> and \<open>str.startswith\<close> on ASCII text.\<close>

definition lower_char :: "char \<Rightarrow> char" where
  "lower_char c = (if CHR ''A'' \<le> c \<and> c \<le> CHR ''Z'' then char_of (of_char c + (32 :: nat)) else c)"

definition lower :: "string \<Rightarrow> string" where
  "lower s = map lower_char s"

definition startswith :: "string \<Rightarrow> string \<Rightarrow> bool" where
  "startswith s p = (take (length p) s = p)"

section \<open>\<open>SchemaManager\<close> (\<open>utils/schema_manager.py\<close>)\<close>

record schema_manager =
  base_url :: string
  schema_dir :: string
  schema_file :: string

text \<open>
  The three attributes \<open>__init__\<close> sets. \<open>schema_file\<close> is the path \<open>pathlib\<close> builds
  from the directory and \<open>openapi_schema.json\<close>; the methods below only read it.
\<close>

definition schema_request :: "env \<Rightarrow> schema_manager \<Rightarrow> http_request" where
  "schema_request ev self =
     \<lparr>req_method = GET,
      req_url = base_url self @ OPENAPI_YAML_ENDPOINT ev,
      req_json = None,
      req_timeout = SCHEMA_DOWNLOAD_TIMEOUT ev,
      req_verify = SSL_VERIFY ev\<rparr>"

text \<open>
  The handler of the \<open>try\<close> block: a request exception is logged (the message without
  the rendering of the exception), then raised again; any other exception passes through.
  The block covers the parse and the write too: \<open>open(..., 'w')\<close> empties the file, and
  when \<open>json.dump\<close> raises after that, the file is left with text that is no document.
\<close>

definition reraise :: "py_error \<Rightarrow> world \<Rightarrow> world \<times> (py_error + string)" where
  "reraise e w =
     (if is_request_exception e then (log ERROR '' Failed to download OpenAPI schema'' w, Inl e)
      else (w, Inl e))"

definition download_schema ::
  "env \<Rightarrow> schema_manager \<Rightarrow> bool \<Rightarrow> world \<Rightarrow> world \<times> (py_error + string)" where
  "download_schema ev self force w =
     (if files w (schema_file self) \<noteq> None \<and> \<not> force then
        (log INFO ('' OpenAPI schema already exists: '' @ schema_file self) w, Inr (schema_file self))
      else
        (let w1 = log INFO ('' Downloading OpenAPI schema from '' @ base_url self @ ''...'') w;
             w2 = w1\<lparr>requests_sent := requests_sent w1 @ [schema_request ev self]\<rparr>
         in case http ev (schema_request ev self) of
              Inl e \<Rightarrow> reraise e w2
            | Inr response \<Rightarrow>
                (case raise_for_status response of
                   Inl e \<Rightarrow> reraise e w2
                 | Inr u \<Rightarrow>
                     (case yaml_safe_load ev (text_of response) of
                        Inl e \<Rightarrow> reraise e w2
                      | Inr schema \<Rightarrow>
                          (case open_w ev (schema_file self) of
                             Inl e \<Rightarrow> reraise e w2
                           | Inr f \<Rightarrow>
                               (case json_dump ev schema of
                                  Inl e \<Rightarrow>
                                    reraise e
                                      (w2\<lparr>files := (files w2)(schema_file self \<mapsto> Unreadable),
                                          written := written w2 @ [(schema_file self, Unreadable)]\<rparr>)
                                | Inr doc \<Rightarrow>
                                    (log INFO ('' OpenAPI schema saved: '' @ schema_file self)
                                       (w2\<lparr>files := (files w2)(schema_file self \<mapsto> Document doc),
                                           written := written w2 @ [(schema_file self, Document doc)]\<rparr>),
                                     Inr (schema_file self))))))))"

definition get_schema :: "env \<Rightarrow> schema_manager \<Rightarrow> world \<Rightarrow> world \<times> (py_error + json)" where
  "get_schema ev self w =
     (case (if files w (schema_file self) = None then download_schema ev self False w
            else (w, Inr (schema_file self))) of
        (w', Inl e) \<Rightarrow> (w', Inl e)
      | (w', Inr p) \<Rightarrow>
          (case files w' (schema_file self) of
             None \<Rightarrow> (w', Inl (PyException ''FileNotFoundError''))
           | Some Unreadable \<Rightarrow> (w', Inl JSONDecodeError)
           | Some (Document doc) \<Rightarrow> (w', Inr doc)))"

text \<open>The body of \<open>get_endpoint_schema\<close> after \<open>schema = self.get_schema()\<close>.\<close>

definition endpoint_schema_of :: "json \<Rightarrow> string \<Rightarrow> string \<Rightarrow> py_error + json" where
  "endpoint_schema_of schema path method =
     (case py_get schema ''paths'' (JObj []) of
        Inl e \<Rightarrow> Inl e
      | Inr paths \<Rightarrow>
          (case py_contains path paths of
             Inl e \<Rightarrow> Inl e
           | Inr found \<Rightarrow>
               if \<not> found then Inl (ValueError (''Endpoint '' @ path @ '' not found in schema''))
               else
                 (case py_getitem schema ''paths'' of
                    Inl e \<Rightarrow> Inl e
                  | Inr ps \<Rightarrow>
                      (case py_getitem ps path of
                         Inl e \<Rightarrow> Inl e
                       | Inr endpoint \<Rightarrow>
                           (case py_contains (lower method) endpoint of
                              Inl e \<Rightarrow> Inl e
                            | Inr supported \<Rightarrow>
                                if \<not> supported then
                                  Inl (ValueError (''Method '' @ method @ '' not supported for '' @ path))
                                else py_getitem endpoint (lower method))))))"

definition get_endpoint_schema ::
  "env \<Rightarrow> schema_manager \<Rightarrow> string \<Rightarrow> string \<Rightarrow> world \<Rightarrow> world \<times> (py_error + json)" where
  "get_endpoint_schema ev self path method w =
     (case get_schema ev self w of
        (w', Inl e) \<Rightarrow> (w', Inl e)
      | (w', Inr schema) \<Rightarrow> (w', endpoint_schema_of schema path method))"

text \<open>The body of \<open>get_all_test_endpoints\<close> after \<open>schema = self.get_schema()\<close>.\<close>

definition test_endpoints_of :: "json \<Rightarrow> py_error + string list" where
  "test_endpoints_of schema =
     (case py_get schema ''paths'' (JObj []) of
        Inl e \<Rightarrow> Inl e
      | Inr paths \<Rightarrow>
          (case py_keys paths of
             Inl e \<Rightarrow> Inl e
           | Inr ks \<Rightarrow> Inr (sort (filter (\<lambda>path. startswith path ''/api/test/'') ks))))"

definition get_all_test_endpoints ::
  "env \<Rightarrow> schema_manager \<Rightarrow> world \<Rightarrow> world \<times> (py_error + string list)" where
  "get_all_test_endpoints ev self w =
     (case get_schema ev self w of
        (w', Inl e) \<Rightarrow> (w', Inl e)
      | (w', Inr schema) \<Rightarrow> (w', test_endpoints_of schema))"

section \<open>The token fixtures (\<open>conftest.py\<close>)\<close>

text \<open>The POST both fixtures send; they differ in \<open>verify\<close> only.\<close>

definition auth_request :: "env \<Rightarrow> string \<Rightarrow> string \<Rightarrow> bool \<Rightarrow> http_request" where
  "auth_request ev url initial_refresh_token verify =
     \<lparr>req_method = POST,
      req_url = url @ AUTH_GENERATE_ENDPOINT ev,
      req_json = Some (JObj [(''refresh_token'', JStr initial_refresh_token)]),
      req_timeout = AUTH_TIMEOUT ev,
      req_verify = verify\<rparr>"

text \<open>\<open>response.json()["access_token"]\<close>\<close>

definition access_token_of :: "env \<Rightarrow> http_response \<Rightarrow> py_error + json" where
  "access_token_of ev response =
     (case json_loads ev (text_of response) of
        Inl e \<Rightarrow> Inl e
      | Inr token_data \<Rightarrow> py_getitem token_data ''access_token'')"

definition auth_token :: "env \<Rightarrow> string \<Rightarrow> string \<Rightarrow> world \<Rightarrow> world \<times> (py_error + json)" where
  "auth_token ev url initial_refresh_token w =
     (let w1 = log INFO ''Generating session access token...'' w;
          request = auth_request ev url initial_refresh_token (SSL_VERIFY ev);
          w2 = w1\<lparr>requests_sent := requests_sent w1 @ [request]\<rparr>
      in case http ev request of
           Inl e \<Rightarrow> (w2, Inl e)
         | Inr response \<Rightarrow>
             (if status_code response = HTTP_OK
              then log INFO ''Session access token generated successfully'' w2
              else log ERROR (''Failed to generate token: '' @ str_int (status_code response)) w2,
              access_token_of ev response))"

definition fresh_auth_token ::
  "env \<Rightarrow> string \<Rightarrow> string \<Rightarrow> world \<Rightarrow> world \<times> (py_error + json)" where
  "fresh_auth_token ev url initial_refresh_token w =
     (let w1 = log DEBUG ''Generating fresh access token for test...'' w;
          request = auth_request ev url initial_refresh_token False;
          w2 = w1\<lparr>requests_sent := requests_sent w1 @ [request]\<rparr>
      in case http ev request of
           Inl e \<Rightarrow> (w2, Inl e)
         | Inr response \<Rightarrow>
             if status_code response \<noteq> HTTP_OK
             then (w2, Inl (PyException (''Failed to generate token: '' @ str_int (status_code response))))
             else (w2, access_token_of ev response))"

section \<open>Concrete sessions\<close>

text \<open>A session with a stable, an unstable and a failed endpoint, and what it prints.\<close>

definition example_results :: results where
  "example_results =
     [(''/api/test/2'', \<lparr>status_codes = [200, 500, 200], response_times = [1, 2, 6],
                          test_count = 3, passed = 2, failed = 1\<rparr>),
      (''/api/test/1'', \<lparr>status_codes = [200, 200], response_times = [1 / 2, 3 / 2],
                          test_count = 2, passed = 2, failed = 0\<rparr>),
      (''/api/test/3'', \<lparr>status_codes = [503], response_times = [],
                          test_count = 3, passed = 0, failed = 3\<rparr>)]"

text \<open>
  Float arithmetic where it is exact: at operands whose sums, quotients and products are
  binary fractions that a double holds, as in the sessions below.
\<close>

definition exact_arith :: float_arith where
  "exact_arith = \<lparr>fsum = sum_list, fdiv = (\<lambda>x y. x / y), fmul = (\<lambda>x y. x * y)\<rparr>"

definition example_output :: "log_record list" where
  "example_output =
     summary_header @
     block_lines
       \<lparr>block_endpoint = ''/api/test/1'', block_status = OK,
        block_tests = 2, block_passed = 2, block_failed = 0,
        block_codes = [(200, 2)], block_avg_time = 1\<rparr> @
     block_lines
       \<lparr>block_endpoint = ''/api/test/2'', block_status = UNSTABLE,
        block_tests = 3, block_passed = 2, block_failed = 1,
        block_codes = [(200, 2), (500, 1)], block_avg_time = 3\<rparr> @
     block_lines
       \<lparr>block_endpoint = ''/api/test/3'', block_status = FAILED,
        block_tests = 3, block_passed = 0, block_failed = 3,
        block_codes = [(503, 1)], block_avg_time = 0\<rparr> @
     overall_lines
       \<lparr>stable_endpoints = 1, unstable_endpoints = 1, failed_endpoints = 1,
        total_tests = 8, total_passed = 4, success_rate = 50\<rparr>"

text \<open>A session in which a test recorded under a path that does not end in a number.\<close>

definition session_with_health_key :: results where
  "session_with_health_key =
     [(''/api/test/1'', \<lparr>status_codes = [200], response_times = [1 / 4],
                          test_count = 1, passed = 1, failed = 0\<rparr>),
      (''/health'', \<lparr>status_codes = [200], response_times = [1 / 8],
                      test_count = 1, passed = 1, failed = 0\<rparr>)]"

text \<open>An environment without a network, and a world that holds one cached document.\<close>

definition offline_env :: env where
  "offline_env =
     \<lparr>http = (\<lambda>q. Inl (RequestException ''connection refused'')),
      yaml_safe_load = (\<lambda>t. Inl (YAMLError t)),
      json_loads = (\<lambda>t. Inl JSONDecodeError),
      json_dump = (\<lambda>v. Inl TypeError),
      open_w = (\<lambda>p. Inr ()),
      SSL_VERIFY = True,
      OPENAPI_YAML_ENDPOINT = ''/openapi.yaml'',
      SCHEMA_DOWNLOAD_TIMEOUT = 10,
      AUTH_GENERATE_ENDPOINT = ''/api/auth/generate'',
      AUTH_TIMEOUT = 10\<rparr>"

definition example_manager :: schema_manager where
  "example_manager =
     \<lparr>base_url = ''https://host'', schema_dir = ''data/schemas'',
      schema_file = ''data/schemas/openapi_schema.json''\<rparr>"

definition world_with_cache :: "json \<Rightarrow> world" where
  "world_with_cache doc =
     \<lparr>files = [schema_file example_manager \<mapsto> Document doc], requests_sent = [], written = [],
      logged = []\<rparr>"

definition empty_world :: world where
  "empty_world = \<lparr>files = Map.empty, requests_sent = [], written = [], logged = []\<rparr>"

definition example_paths :: "(string \<times> json) list" where
  "example_paths =
     [(''/api/test/2'', JObj [(''get'', JObj [(''summary'', JStr ''two'')])]),
      (''/health'', JObj [(''get'', JObj [])]),
      (''/api/test/1'', JObj [(''GET'', JObj [(''summary'', JStr ''one'')])])]"

definition example_schema_top :: "(string \<times> json) list" where
  "example_schema_top = [(''openapi'', JStr ''3.0.0''), (''paths'', JObj example_paths)]"

text \<open>
  A server that answers the schema request with one status and a YAML text that parses
  to a mapping JSON can hold.
\<close>

definition serving_env :: "int \<Rightarrow> env" where
  "serving_env status =
     offline_env
       \<lparr>http := (\<lambda>q. Inr \<lparr>status_code = status, text_of = ''paths: {}''\<rparr>),
        yaml_safe_load := (\<lambda>t. if t = ''paths: {}'' then Inr (YMap [(YStr ''paths'', YMap [])])
                                  else Inl (YAMLError t)),
        json_dump := (\<lambda>v. if v = YMap [(YStr ''paths'', YMap [])] then Inr (JObj [(''paths'', JObj [])])
                             else Inl TypeError)\<rparr>"

text \<open>A server whose YAML text holds a date, which \<open>json.dump\<close> refuses.\<close>

definition dated_env :: env where
  "dated_env =
     offline_env
       \<lparr>http := (\<lambda>q. Inr \<lparr>status_code = 200, text_of = ''released: 2020-01-01''\<rparr>),
        yaml_safe_load := (\<lambda>t. if t = ''released: 2020-01-01''
                                  then Inr (YMap [(YStr ''released'', YOther ''2020-01-01'')])
                                  else Inl (YAMLError t)),
        json_dump := (\<lambda>v. Inl TypeError)\<rparr>"

text \<open>An auth server that answers every request with one status and a body with a token.\<close>

definition token_body :: string where
  "token_body = ''{'' @ [CHR 0x22] @ ''access_token'' @ [CHR 0x22] @ '': '' @ [CHR 0x22] @ ''abc'' @
     [CHR 0x22] @ ''}''"

definition auth_env :: "int \<Rightarrow> env" where
  "auth_env status =
     offline_env
       \<lparr>http := (\<lambda>q. Inr \<lparr>status_code = status, text_of = token_body\<rparr>),
        json_loads := (\<lambda>t. if t = token_body then Inr (JObj [(''access_token'', JStr ''abc'')])
                              else Inl JSONDecodeError)\<rparr>"

section \<open>Properties of the session summary\<close>

subsection \<open>The histogram\<close>

lemma fold_count_code:
  "map_of (fold count_code cs d) c =
     (if c \<in> set cs \<or> c \<in> fst ` set d then Some (dict_get d c 0 + count_list cs c) else None)"
proof (induction cs arbitrary: d)
  case Nil
  then show ?case by (auto simp: dict_get_def map_of_eq_None_iff[symmetric] split: option.splits)
next
  case (Cons a cs)
  show ?case
    apply (simp add: Cons.IH)
    apply (auto simp: count_code_def dict_get_def update_conv' AList.dom_update map_of_eq_None_iff[symmetric] split: option.splits)
    done
qed

lemma fold_count_code_distinct:
  "distinct (map fst d) \<Longrightarrow> distinct (map fst (fold count_code cs d))"
  by (induction cs arbitrary: d) (simp_all add: count_code_def AList.distinct_update)

lemma map_of_status_distribution:
  "map_of (status_distribution cs) c = (if c \<in> set cs then Some (count_list cs c) else None)"
  by (simp add: status_distribution_def fold_count_code dict_get_def)

lemma distinct_status_distribution: "distinct (map fst (status_distribution cs))"
  by (simp add: status_distribution_def fold_count_code_distinct)

lemma keys_status_distribution: "fst ` set (status_distribution cs) = set cs"
proof -
  have "dom (map_of (status_distribution cs)) = set cs"
    by (auto simp: map_of_status_distribution dom_def)
  then show ?thesis by (simp add: dom_map_of_conv_image_fst)
qed

lemma length_status_distribution: "length (status_distribution cs) = card (set cs)"
proof -
  have "length (status_distribution cs) = length (map fst (status_distribution cs))" by simp
  also have "\<dots> = card (set (map fst (status_distribution cs)))"
    using distinct_status_distribution [of cs] by (simp only: distinct_card)
  also have "\<dots> = card (set cs)" by (simp add: keys_status_distribution)
  finally show ?thesis .
qed

lemma only_200: "(card (set cs) = 1 \<and> (200::int) \<in> set cs) \<longleftrightarrow> (200 \<in> set cs \<and> (\<forall>c\<in>set cs. c = 200))"
proof
  assume a: "card (set cs) = 1 \<and> 200 \<in> set cs"
  then obtain x where "set cs = {x}" by (auto simp: card_1_singleton_iff)
  with a show "200 \<in> set cs \<and> (\<forall>c\<in>set cs. c = 200)" by auto
next
  assume a: "200 \<in> set cs \<and> (\<forall>c\<in>set cs. c = 200)"
  then have "set cs = {200}" by auto
  then show "card (set cs) = 1 \<and> 200 \<in> set cs" by simp
qed

lemma classify_OK:
  "classify d = OK \<longleftrightarrow> 200 \<in> set (status_codes d) \<and> (\<forall>c\<in>set (status_codes d). c = 200)"
  using only_200 [of "status_codes d"]
  by (auto simp: classify_def Let_def has_success_def length_status_distribution keys_status_distribution)

lemma classify_UNSTABLE:
  "classify d = UNSTABLE \<longleftrightarrow> 200 \<in> set (status_codes d) \<and> (\<exists>c\<in>set (status_codes d). c \<noteq> 200)"
  using only_200 [of "status_codes d"]
  by (auto simp: classify_def Let_def has_success_def length_status_distribution keys_status_distribution)

lemma classify_FAILED:
  "classify d = FAILED \<longleftrightarrow> 200 \<notin> set (status_codes d)"
  by (auto simp: classify_def Let_def has_success_def)

lemma distinct_fst_sort_key:
  "distinct (map fst ps) \<Longrightarrow> distinct (map fst (sort_key fst ps))"
proof -
  assume d: "distinct (map fst ps)"
  have "mset (map fst (sort_key fst ps)) = mset (map fst ps)" by simp
  then show ?thesis using d by (metis mset_eq_imp_distinct_iff)
qed

lemma map_of_sort_key_fst:
  assumes "distinct (map fst ps)"
  shows "map_of (sort_key fst ps) k = map_of ps k"
proof (cases "map_of ps k")
  case None
  have "fst ` set (sort_key fst ps) = fst ` set ps" by simp
  then have "map_of (sort_key fst ps) k = None" using None by (metis map_of_eq_None_iff)
  then show ?thesis using None by simp
next
  case (Some v)
  then have "(k, v) \<in> set (sort_key fst ps)" by (auto dest: map_of_SomeD)
  then show ?thesis using Some distinct_fst_sort_key [OF assms] by simp
qed

lemma decorate_Inr:
  "decorate ks = Inr ps \<Longrightarrow> map snd ps = ks"
  by (induction ks arbitrary: ps) (auto split: sum.splits)

lemma sorted_endpoints_mset:
  "sorted_endpoints r = Inr ks \<Longrightarrow> mset ks = mset (map fst r)"
  apply (auto simp: sorted_endpoints_def split: sum.splits dest!: decorate_Inr)
  by (metis mset_map mset_sort)

lemma entry_in:
  "distinct (map fst r) \<Longrightarrow> (k, d) \<in> set r \<Longrightarrow> entry r k = d"
  by (simp add: entry_def getitem_def)

subsection \<open>The sort key\<close>

lemma decorate_Inr_iff:
  "(\<exists>ps. decorate ks = Inr ps) \<longleftrightarrow> (\<forall>k \<in> set ks. \<exists>n. sort_key_of k = Inr n)"
  by (induction ks) (auto split: sum.splits)

lemma decorate_Inl:
  "decorate ks = Inl e \<Longrightarrow> \<exists>k \<in> set ks. sort_key_of k = Inl e"
  by (induction ks) (auto split: sum.splits)

lemma decorate_keys:
  "decorate ks = Inr ps \<Longrightarrow> \<forall>p \<in> set ps. sort_key_of (snd p) = Inr (fst p)"
  by (induction ks arbitrary: ps) (auto split: sum.splits)

lemma sort_key_of_error: "sort_key_of k = Inl e \<Longrightarrow> e = ValueError (last_segment k)"
  by (auto simp: sort_key_of_def py_int_def Let_def split: if_splits option.splits)

lemma parse_digits_bad:
  "c \<in> set s \<Longrightarrow> \<not> is_digit c \<Longrightarrow> c \<noteq> CHR ''_'' \<Longrightarrow> parse_digits acc b s = None"
  by (induction s arbitrary: acc b) auto

lemma in_dropWhile: "x \<in> set xs \<Longrightarrow> \<not> P x \<Longrightarrow> x \<in> set (dropWhile P xs)"
  by (induction xs) auto

lemma in_strip: "c \<in> set s \<Longrightarrow> \<not> is_space c \<Longrightarrow> c \<in> set (strip s)"
  by (simp add: strip_def in_dropWhile)

lemma py_int_bad:
  assumes "c \<in> set s" "\<not> is_digit c" "\<not> is_space c" "c \<noteq> CHR ''_''" "c \<noteq> CHR ''+''" "c \<noteq> CHR ''-''"
  shows "py_int s = Inl (ValueError s)"
proof -
  have c: "c \<in> set (strip s)" using assms by (simp add: in_strip)
  then have "c \<in> set (case strip s of [] \<Rightarrow> [] | x # xs \<Rightarrow> if x = CHR ''-'' \<or> x = CHR ''+'' then xs else strip s)"
    using assms by (cases "strip s") auto
  then have "parse_digits 0 False (case strip s of [] \<Rightarrow> [] | x # xs \<Rightarrow> if x = CHR ''-'' \<or> x = CHR ''+'' then xs else strip s) = None"
    using assms by (simp add: parse_digits_bad)
  then show ?thesis by (simp add: py_int_def Let_def)
qed

lemma parse_digits_all:
  "\<forall>c \<in> set s. is_digit c \<Longrightarrow> s \<noteq> [] \<or> b \<Longrightarrow> \<exists>n. parse_digits acc b s = Some n"
  by (induction s arbitrary: acc b) auto

lemma dropWhile_none: "\<forall>x \<in> set xs. \<not> P x \<Longrightarrow> dropWhile P xs = xs"
  by (cases xs) auto

lemma digit_not_space: "is_digit c \<Longrightarrow> \<not> is_space c \<and> c \<noteq> CHR ''+'' \<and> c \<noteq> CHR ''-''"
  by (auto simp: is_digit_def is_space_def)

lemma strip_digits: "\<forall>c \<in> set s. is_digit c \<Longrightarrow> strip s = s"
  by (simp add: strip_def dropWhile_none digit_not_space)

lemma py_int_digits:
  assumes "s \<noteq> []" "\<forall>c \<in> set s. is_digit c" "length s \<le> max_str_digits"
  shows "\<exists>n. py_int s = Inr n"
proof -
  have st: "strip s = s" using assms(2) by (rule strip_digits)
  obtain x xs where s: "s = x # xs" using assms(1) by (cases s) auto
  then have x: "x \<noteq> CHR ''+'' \<and> x \<noteq> CHR ''-''" using assms(2) digit_not_space by auto
  have body: "(case strip s of [] \<Rightarrow> [] | c # cs \<Rightarrow> if c = CHR ''-'' \<or> c = CHR ''+'' then cs else strip s) = s"
    unfolding st using x by (simp add: s)
  have f: "\<not> max_str_digits < length (filter is_digit s)"
    using assms(3) length_filter_le [of is_digit s] by linarith
  obtain n where n: "parse_digits 0 False s = Some n"
    using parse_digits_all [of s False 0] assms by auto
  show ?thesis
    unfolding py_int_def Let_def body using f n by simp
qed

lemma sorted_endpoints_total:
  assumes "\<forall>k \<in> set (map fst r). \<exists>n. sort_key_of k = Inr n"
  shows "\<exists>ks. sorted_endpoints r = Inr ks"
proof -
  from assms obtain ps where "decorate (map fst r) = Inr ps"
    using decorate_Inr_iff [of "map fst r"] by blast
  then show ?thesis by (simp add: sorted_endpoints_def)
qed

lemma sorted_endpoints_keys:
  assumes "sorted_endpoints r = Inr ks"
  shows "\<forall>k \<in> set (map fst r). \<exists>n. sort_key_of k = Inr n"
proof -
  from assms have "\<exists>ps. decorate (map fst r) = Inr ps"
    by (auto simp: sorted_endpoints_def split: sum.splits)
  then show ?thesis using decorate_Inr_iff [of "map fst r"] by blast
qed

lemma sorted_endpoints_fails:
  assumes "sorted_endpoints r = Inl e"
  shows "\<exists>k \<in> set (map fst r). e = ValueError (last_segment k) \<and> sort_key_of k = Inl e"
proof -
  from assms have "decorate (map fst r) = Inl e"
    by (auto simp: sorted_endpoints_def split: sum.splits)
  then obtain k where "k \<in> set (map fst r)" "sort_key_of k = Inl e"
    using decorate_Inl by blast
  then show ?thesis using sort_key_of_error by blast
qed

lemma sorted_endpoints_order:
  assumes "sorted_endpoints r = Inr ks"
  shows "\<exists>ns. map sort_key_of ks = map Inr ns \<and> sorted ns"
proof -
  from assms obtain ps where ps: "decorate (map fst r) = Inr ps"
    and ks: "ks = map snd (sort_key fst ps)"
    by (auto simp: sorted_endpoints_def split: sum.splits)
  have "\<forall>p \<in> set (sort_key fst ps). sort_key_of (snd p) = Inr (fst p)"
    using decorate_keys [OF ps] by simp
  then have "map (sort_key_of \<circ> snd) (sort_key fst ps) = map (Inr \<circ> fst) (sort_key fst ps)"
    by (intro map_cong) auto
  then have "map sort_key_of ks = map Inr (map fst (sort_key fst ps))"
    by (simp add: ks)
  moreover have "sorted (map fst (sort_key fst ps))" by simp
  ultimately show ?thesis by blast
qed

subsection \<open>What is printed\<close>

lemma summary_on_empty:
  "print_endpoint_discovery_summary fa [] =
     ([(DEBUG, Text ''No endpoint discovery tests executed in this session'')], Inr ())"
  by (simp add: print_endpoint_discovery_summary_def)

lemma summary_on_sorted:
  assumes "r \<noteq> []" and "sorted_endpoints r = Inr ks"
  shows "print_endpoint_discovery_summary fa r =
     (summary_header @ concat (map (\<lambda>k. block_lines (block_of fa r k)) ks) @
        overall_lines (overall fa r ks), Inr ())"
  using assms by (simp add: print_endpoint_discovery_summary_def)

lemma summary_on_failure:
  assumes "r \<noteq> []" and "sorted_endpoints r = Inl e"
  shows "print_endpoint_discovery_summary fa r = (summary_header, Inl e)"
  using assms by (simp add: print_endpoint_discovery_summary_def)

lemma summary_returns_iff:
  "snd (print_endpoint_discovery_summary fa r) = Inr () \<longleftrightarrow>
     (\<forall>k \<in> set (map fst r). \<exists>n. sort_key_of k = Inr n)"
proof (cases "r = []")
  case True
  then show ?thesis by (simp add: summary_on_empty)
next
  case False
  show ?thesis
  proof (cases "sorted_endpoints r")
    case (Inl e)
    then obtain k where "k \<in> set (map fst r)" "sort_key_of k = Inl e"
      using sorted_endpoints_fails by blast
    then have "\<not> (\<forall>k \<in> set (map fst r). \<exists>n. sort_key_of k = Inr n)" by force
    then show ?thesis by (simp add: summary_on_failure [OF False Inl])
  next
    case (Inr ks)
    then show ?thesis
      using sorted_endpoints_keys [OF Inr] by (simp add: summary_on_sorted [OF False Inr])
  qed
qed

lemma summary_raises:
  assumes "snd (print_endpoint_discovery_summary fa r) = Inl e"
  shows "fst (print_endpoint_discovery_summary fa r) = summary_header \<and>
         (\<exists>k \<in> set (map fst r). e = ValueError (last_segment k) \<and> sort_key_of k = Inl e)"
proof -
  from assms have ne: "r \<noteq> []" by (auto simp: summary_on_empty)
  from assms ne have se: "sorted_endpoints r = Inl e"
    by (cases "sorted_endpoints r") (simp_all add: summary_on_sorted summary_on_failure)
  show ?thesis
    using sorted_endpoints_fails [OF se] by (simp add: summary_on_failure [OF ne se])
qed

lemma block_endpoint_block_of: "block_endpoint (block_of fa r k) = k"
  by (simp add: block_of_def Let_def)

lemma map_of_block_codes:
  "map_of (block_codes (block_of fa r k)) c =
     (if c \<in> set (status_codes (entry r k)) then Some (count_list (status_codes (entry r k)) c) else None)"
  by (simp add: block_of_def Let_def map_of_sort_key_fst distinct_status_distribution
      map_of_status_distribution)

lemma block_of_entry:
  assumes "distinct (map fst r)" and "(k, d) \<in> set r"
  shows "block_endpoint (block_of fa r k) = k \<and>
       (block_status (block_of fa r k) = OK \<longleftrightarrow>
          200 \<in> set (status_codes d) \<and> (\<forall>c \<in> set (status_codes d). c = 200)) \<and>
       (block_status (block_of fa r k) = UNSTABLE \<longleftrightarrow>
          200 \<in> set (status_codes d) \<and> (\<exists>c \<in> set (status_codes d). c \<noteq> 200)) \<and>
       (block_status (block_of fa r k) = FAILED \<longleftrightarrow> 200 \<notin> set (status_codes d)) \<and>
       (\<forall>c. map_of (block_codes (block_of fa r k)) c =
          (if c \<in> set (status_codes d) then Some (count_list (status_codes d) c) else None)) \<and>
       block_avg_time (block_of fa r k) =
          (if response_times d = [] then 0
           else fdiv fa (fsum fa (response_times d)) (real (length (response_times d))))"
proof -
  have e: "entry r k = d" using assms by (rule entry_in)
  have st: "block_status (block_of fa r k) = classify d" by (simp add: block_of_def Let_def e)
  have av: "block_avg_time (block_of fa r k) = avg_time fa (response_times d)"
    by (simp add: block_of_def Let_def e)
  have cd: "map_of (block_codes (block_of fa r k)) c =
          (if c \<in> set (status_codes d) then Some (count_list (status_codes d) c) else None)" for c
    using map_of_block_codes [of fa r k c] by (simp only: e)
  show ?thesis
    apply (intro conjI)
         apply (rule block_endpoint_block_of)
        apply (simp only: st classify_OK)
       apply (simp only: st classify_UNSTABLE)
      apply (simp only: st classify_FAILED)
     apply (simp only: cd)
     apply simp
    apply (simp add: av avg_time_def)
    done
qed

text \<open>
  Claim C1, amended. Provided the last segment of every recorded key is accepted by
  \<open>int\<close>, the summary returns and logs, after its header, the five lines of exactly one
  block per recorded endpoint, then the totals. The block's status is OK exactly when a
  200 was observed and every observed code is 200, UNSTABLE exactly when a 200 and a
  non-200 were observed, FAILED exactly when no 200 was observed. The block's histogram
  maps every observed code to its number of occurrences in the recorded list (and holds
  no other code), and the average time is the float sum of the samples divided by their
  count, 0 when there is no sample.
\<close>

theorem summary_classifies_every_endpoint:
  assumes "distinct (map fst r)"
    and "\<forall>k \<in> set (map fst r). \<exists>n. sort_key_of k = Inr n"
  shows "snd (print_endpoint_discovery_summary fa r) = Inr () \<and>
    (\<exists>ks. mset ks = mset (map fst r) \<and>
       fst (print_endpoint_discovery_summary fa r) =
         (if r = [] then [(DEBUG, Text ''No endpoint discovery tests executed in this session'')]
          else summary_header @ concat (map (\<lambda>k. block_lines (block_of fa r k)) ks) @
                 overall_lines (overall fa r ks))) \<and>
    (\<forall>k d. (k, d) \<in> set r \<longrightarrow>
       block_endpoint (block_of fa r k) = k \<and>
       (block_status (block_of fa r k) = OK \<longleftrightarrow>
          200 \<in> set (status_codes d) \<and> (\<forall>c \<in> set (status_codes d). c = 200)) \<and>
       (block_status (block_of fa r k) = UNSTABLE \<longleftrightarrow>
          200 \<in> set (status_codes d) \<and> (\<exists>c \<in> set (status_codes d). c \<noteq> 200)) \<and>
       (block_status (block_of fa r k) = FAILED \<longleftrightarrow> 200 \<notin> set (status_codes d)) \<and>
       (\<forall>c. map_of (block_codes (block_of fa r k)) c =
          (if c \<in> set (status_codes d) then Some (count_list (status_codes d) c) else None)) \<and>
       block_avg_time (block_of fa r k) =
          (if response_times d = [] then 0
           else fdiv fa (fsum fa (response_times d)) (real (length (response_times d)))))"
proof -
  have a: "snd (print_endpoint_discovery_summary fa r) = Inr ()"
    using assms(2) by (simp only: summary_returns_iff)
  from assms(2) obtain ks where ks: "sorted_endpoints r = Inr ks"
    using sorted_endpoints_total by blast
  have m: "mset ks = mset (map fst r)" using ks by (rule sorted_endpoints_mset)
  have "fst (print_endpoint_discovery_summary fa r) =
         (if r = [] then [(DEBUG, Text ''No endpoint discovery tests executed in this session'')]
          else summary_header @ concat (map (\<lambda>k. block_lines (block_of fa r k)) ks) @
                 overall_lines (overall fa r ks))"
    using ks by (cases "r = []") (simp_all add: summary_on_empty summary_on_sorted)
  with m have b: "\<exists>ks. mset ks = mset (map fst r) \<and>
       fst (print_endpoint_discovery_summary fa r) =
         (if r = [] then [(DEBUG, Text ''No endpoint discovery tests executed in this session'')]
          else summary_header @ concat (map (\<lambda>k. block_lines (block_of fa r k)) ks) @
                 overall_lines (overall fa r ks))"
    by blast
  have c: "\<forall>k d. (k, d) \<in> set r \<longrightarrow>
       block_endpoint (block_of fa r k) = k \<and>
       (block_status (block_of fa r k) = OK \<longleftrightarrow>
          200 \<in> set (status_codes d) \<and> (\<forall>c \<in> set (status_codes d). c = 200)) \<and>
       (block_status (block_of fa r k) = UNSTABLE \<longleftrightarrow>
          200 \<in> set (status_codes d) \<and> (\<exists>c \<in> set (status_codes d). c \<noteq> 200)) \<and>
       (block_status (block_of fa r k) = FAILED \<longleftrightarrow> 200 \<notin> set (status_codes d)) \<and>
       (\<forall>c. map_of (block_codes (block_of fa r k)) c =
          (if c \<in> set (status_codes d) then Some (count_list (status_codes d) c) else None)) \<and>
       block_avg_time (block_of fa r k) =
          (if response_times d = [] then 0
           else fdiv fa (fsum fa (response_times d)) (real (length (response_times d))))"
  proof (intro allI impI)
    fix k d
    assume kd: "(k, d) \<in> set r"
    show "block_endpoint (block_of fa r k) = k \<and>
       (block_status (block_of fa r k) = OK \<longleftrightarrow>
          200 \<in> set (status_codes d) \<and> (\<forall>c \<in> set (status_codes d). c = 200)) \<and>
       (block_status (block_of fa r k) = UNSTABLE \<longleftrightarrow>
          200 \<in> set (status_codes d) \<and> (\<exists>c \<in> set (status_codes d). c \<noteq> 200)) \<and>
       (block_status (block_of fa r k) = FAILED \<longleftrightarrow> 200 \<notin> set (status_codes d)) \<and>
       (\<forall>c. map_of (block_codes (block_of fa r k)) c =
          (if c \<in> set (status_codes d) then Some (count_list (status_codes d) c) else None)) \<and>
       block_avg_time (block_of fa r k) =
          (if response_times d = [] then 0
           else fdiv fa (fsum fa (response_times d)) (real (length (response_times d))))"
      by (rule block_of_entry [OF assms(1) kd])
  qed
  from a b c show ?thesis by (intro conjI)
qed

lemma example_summary_printed:
  "print_endpoint_discovery_summary exact_arith example_results = (example_output, Inr ())"
  unfolding example_results_def example_output_def exact_arith_def
  by code_simp

lemma example_keys_accepted:
  "\<forall>k \<in> set (map fst example_results). \<exists>n. sort_key_of k = Inr n"
proof -
  have "sort_key_of ''/api/test/2'' = Inr 2" by code_simp
  moreover have "sort_key_of ''/api/test/1'' = Inr 1" by code_simp
  moreover have "sort_key_of ''/api/test/3'' = Inr 3" by code_simp
  ultimately show ?thesis by (simp add: example_results_def)
qed

lemma summary_raises_on_health_key:
  "print_endpoint_discovery_summary exact_arith session_with_health_key =
     (summary_header, Inl (ValueError ''health''))"
  unfolding session_with_health_key_def exact_arith_def
  by code_simp

text \<open>
  The theorem of C1 at a session with one endpoint of each class: the output, and the
  block of the unstable endpoint.
\<close>

theorem summary_classifies_every_endpoint_witness:
  "distinct (map fst example_results) \<and>
   list_all (\<lambda>k. \<exists>n. sort_key_of k = Inr n) (map fst example_results) \<and>
   print_endpoint_discovery_summary exact_arith example_results = (example_output, Inr ()) \<and>
   snd (print_endpoint_discovery_summary exact_arith example_results) = Inr () \<and>
   (block_status (block_of exact_arith example_results ''/api/test/2'') = UNSTABLE \<longleftrightarrow>
      200 \<in> set [200, 500, 200 :: int] \<and> (\<exists>c \<in> set [200, 500, 200 :: int]. c \<noteq> 200)) \<and>
   map_of (block_codes (block_of exact_arith example_results ''/api/test/2'')) 200 =
     Some (count_list [200, 500, 200 :: int] 200) \<and>
   block_avg_time (block_of exact_arith example_results ''/api/test/2'') =
     fdiv exact_arith (fsum exact_arith [1, 2, 6]) (real (length [1, 2, 6 :: real]))"
proof -
  have h1: "distinct (map fst example_results)"
    by (simp add: example_results_def)
  note h2 = example_keys_accepted
  have m: "(''/api/test/2'', \<lparr>status_codes = [200, 500, 200], response_times = [1, 2, 6],
                          test_count = 3, passed = 2, failed = 1\<rparr>) \<in> set example_results"
    by (simp add: example_results_def)
  note t = summary_classifies_every_endpoint [OF h1 h2, of exact_arith]
  from t have a: "snd (print_endpoint_discovery_summary exact_arith example_results) = Inr ()"
    by blast
  note c = conjunct2 [OF conjunct2 [OF t], rule_format, OF m]
  from c have b: "(block_status (block_of exact_arith example_results ''/api/test/2'') = UNSTABLE \<longleftrightarrow>
      200 \<in> set [200, 500, 200 :: int] \<and> (\<exists>c \<in> set [200, 500, 200 :: int]. c \<noteq> 200)) \<and>
    map_of (block_codes (block_of exact_arith example_results ''/api/test/2'')) 200 =
     Some (count_list [200, 500, 200 :: int] 200) \<and>
    block_avg_time (block_of exact_arith example_results ''/api/test/2'') =
     fdiv exact_arith (fsum exact_arith [1, 2, 6]) (real (length [1, 2, 6 :: real]))"
    by simp
  have l: "list_all (\<lambda>k. \<exists>n. sort_key_of k = Inr n) (map fst example_results)"
    using h2 by (simp only: list_all_iff)
  show ?thesis
    by (intro conjI) (rule h1 l example_summary_printed a conjunct1 [OF b]
        conjunct1 [OF conjunct2 [OF b]] conjunct2 [OF conjunct2 [OF b]])+
qed

text \<open>
  Claim C1 as stated has no condition on the keys. In this session two endpoints are
  recorded and none is classified: the summary raises after its header.
\<close>

theorem summary_classifies_no_endpoint_of_health_session:
  "map fst session_with_health_key = [''/api/test/1'', ''/health''] \<and>
   print_endpoint_discovery_summary exact_arith session_with_health_key =
     (summary_header, Inl (ValueError ''health'')) \<and>
   list_all (\<lambda>l. \<exists>t. snd l = Text t) summary_header"
proof (intro conjI)
  show "map fst session_with_health_key = [''/api/test/1'', ''/health'']"
    by (simp add: session_with_health_key_def)
  show "print_endpoint_discovery_summary exact_arith session_with_health_key =
     (summary_header, Inl (ValueError ''health''))"
    by (rule summary_raises_on_health_key)
  show "list_all (\<lambda>l. \<exists>t. snd l = Text t) summary_header"
    by (simp add: summary_header_def)
qed

text \<open>
  Claim C9, amended. The summary orders the endpoints by \<open>int\<close> of the text after the
  last \<open>/\<close> of each key. It returns exactly when every recorded key has a last segment
  that \<open>int\<close> accepts; otherwise it logs its three header lines, raises the
  \<open>ValueError\<close> of a recorded key and logs nothing else, no endpoint and no totals. When
  it returns on a non-empty aggregator, the blocks follow the header in ascending order of
  that integer. A key whose last segment holds a character that is no digit, space, sign
  or underscore (a letter, as in a health path) makes it raise; a last segment of one to
  4300 decimal digits is accepted.
\<close>

theorem summary_total_iff_keys_are_integers:
  "(snd (print_endpoint_discovery_summary fa r) = Inr () \<longleftrightarrow>
      (\<forall>k \<in> set (map fst r). \<exists>n. sort_key_of k = Inr n)) \<and>
   (\<forall>e. snd (print_endpoint_discovery_summary fa r) = Inl e \<longrightarrow>
      fst (print_endpoint_discovery_summary fa r) = summary_header \<and>
      (\<exists>k \<in> set (map fst r). e = ValueError (last_segment k) \<and> sort_key_of k = Inl e)) \<and>
   (r \<noteq> [] \<and> snd (print_endpoint_discovery_summary fa r) = Inr () \<longrightarrow>
      (\<exists>ks ns. mset ks = mset (map fst r) \<and>
         fst (print_endpoint_discovery_summary fa r) =
           summary_header @ concat (map (\<lambda>k. block_lines (block_of fa r k)) ks) @
             overall_lines (overall fa r ks) \<and>
         map sort_key_of ks = map Inr ns \<and> sorted ns)) \<and>
   (\<forall>k c. k \<in> set (map fst r) \<and> c \<in> set (last_segment k) \<and> \<not> is_digit c \<and> \<not> is_space c \<and>
       c \<noteq> CHR ''_'' \<and> c \<noteq> CHR ''+'' \<and> c \<noteq> CHR ''-'' \<longrightarrow>
      (\<exists>e. snd (print_endpoint_discovery_summary fa r) = Inl e)) \<and>
   (\<forall>k. last_segment k \<noteq> [] \<and> (\<forall>c \<in> set (last_segment k). is_digit c) \<and>
       length (last_segment k) \<le> max_str_digits \<longrightarrow>
      (\<exists>n. sort_key_of k = Inr n))"
proof (intro conjI allI impI)
  show "snd (print_endpoint_discovery_summary fa r) = Inr () \<longleftrightarrow>
      (\<forall>k \<in> set (map fst r). \<exists>n. sort_key_of k = Inr n)"
    by (rule summary_returns_iff)
next
  fix e assume e: "snd (print_endpoint_discovery_summary fa r) = Inl e"
  show "fst (print_endpoint_discovery_summary fa r) = summary_header"
    using summary_raises [OF e] by blast
  show "\<exists>k \<in> set (map fst r). e = ValueError (last_segment k) \<and> sort_key_of k = Inl e"
    using summary_raises [OF e] by blast
next
  assume a: "r \<noteq> [] \<and> snd (print_endpoint_discovery_summary fa r) = Inr ()"
  then have "\<forall>k \<in> set (map fst r). \<exists>n. sort_key_of k = Inr n"
    using summary_returns_iff [of fa r] by blast
  then obtain ks where ks: "sorted_endpoints r = Inr ks"
    using sorted_endpoints_total by blast
  obtain ns where ns: "map sort_key_of ks = map Inr ns \<and> sorted ns"
    using sorted_endpoints_order [OF ks] by blast
  have m: "mset ks = mset (map fst r)" using ks by (rule sorted_endpoints_mset)
  have "fst (print_endpoint_discovery_summary fa r) =
           summary_header @ concat (map (\<lambda>k. block_lines (block_of fa r k)) ks) @
             overall_lines (overall fa r ks)"
    using a ks by (simp add: summary_on_sorted)
  with m ns show "\<exists>ks ns. mset ks = mset (map fst r) \<and>
         fst (print_endpoint_discovery_summary fa r) =
           summary_header @ concat (map (\<lambda>k. block_lines (block_of fa r k)) ks) @
             overall_lines (overall fa r ks) \<and>
         map sort_key_of ks = map Inr ns \<and> sorted ns"
    by blast
next
  fix k c
  assume a: "k \<in> set (map fst r) \<and> c \<in> set (last_segment k) \<and> \<not> is_digit c \<and> \<not> is_space c \<and>
       c \<noteq> CHR ''_'' \<and> c \<noteq> CHR ''+'' \<and> c \<noteq> CHR ''-''"
  then have "sort_key_of k = Inl (ValueError (last_segment k))"
    unfolding sort_key_of_def by (intro py_int_bad [of c]) simp_all
  with a have "\<not> (\<forall>k \<in> set (map fst r). \<exists>n. sort_key_of k = Inr n)" by force
  then have "snd (print_endpoint_discovery_summary fa r) \<noteq> Inr ()"
    using summary_returns_iff [of fa r] by blast
  then show "\<exists>e. snd (print_endpoint_discovery_summary fa r) = Inl e"
    by (cases "snd (print_endpoint_discovery_summary fa r)") auto
next
  fix k
  assume "last_segment k \<noteq> [] \<and> (\<forall>c \<in> set (last_segment k). is_digit c) \<and>
       length (last_segment k) \<le> max_str_digits"
  then show "\<exists>n. sort_key_of k = Inr n"
    unfolding sort_key_of_def by (intro py_int_digits) simp_all
qed

text \<open>The theorem of C9 at a session that recorded a health path, and at one that did not.\<close>

theorem summary_total_iff_keys_are_integers_witness:
  "''/health'' \<in> set (map fst session_with_health_key) \<and>
   CHR ''h'' \<in> set (last_segment ''/health'') \<and>
   (\<exists>e. snd (print_endpoint_discovery_summary exact_arith session_with_health_key) = Inl e) \<and>
   snd (print_endpoint_discovery_summary exact_arith session_with_health_key) =
     Inl (ValueError ''health'') \<and>
   fst (print_endpoint_discovery_summary exact_arith session_with_health_key) = summary_header \<and>
   print_endpoint_discovery_summary exact_arith example_results = (example_output, Inr ()) \<and>
   list_all (\<lambda>k. \<exists>n. sort_key_of k = Inr n) (map fst example_results)"
proof -
  have k: "''/health'' \<in> set (map fst session_with_health_key)"
    by (simp add: session_with_health_key_def)
  have c: "CHR ''h'' \<in> set (last_segment ''/health'')"
    by (simp add: last_segment_def)
  have n: "\<not> is_digit CHR ''h'' \<and> \<not> is_space CHR ''h'' \<and> CHR ''h'' \<noteq> CHR ''_'' \<and>
      CHR ''h'' \<noteq> CHR ''+'' \<and> CHR ''h'' \<noteq> CHR ''-''"
    by (simp add: is_digit_def is_space_def)
  note t = summary_total_iff_keys_are_integers [of exact_arith session_with_health_key]
  note u = summary_total_iff_keys_are_integers [of exact_arith example_results]
  have e: "\<exists>e. snd (print_endpoint_discovery_summary exact_arith session_with_health_key) = Inl e"
    using t k c n by blast
  have v: "snd (print_endpoint_discovery_summary exact_arith session_with_health_key) =
     Inl (ValueError ''health'')"
    by (simp add: summary_raises_on_health_key)
  have h: "fst (print_endpoint_discovery_summary exact_arith session_with_health_key) = summary_header"
    using t v by blast
  have "snd (print_endpoint_discovery_summary exact_arith example_results) = Inr ()"
    by (simp add: example_summary_printed)
  then have a: "\<forall>k \<in> set (map fst example_results). \<exists>n. sort_key_of k = Inr n"
    using u by blast
  show ?thesis
    unfolding list_all_iff
    by (intro conjI) (rule k c e v h example_summary_printed a)+
qed

text \<open>
  Claim C9 as stated has the summary raise instead of printing; the header is logged
  before the keys are sorted, so three lines are out when the exception leaves.
\<close>

theorem summary_logs_header_before_raising:
  "snd (print_endpoint_discovery_summary exact_arith session_with_health_key) =
     Inl (ValueError ''health'') \<and>
   fst (print_endpoint_discovery_summary exact_arith session_with_health_key) =
     [(INFO, Text (CHR 0x0A # replicate 80 (CHR ''=''))),
      (INFO, Text ''ENDPOINT DISCOVERY SUMMARY''),
      (INFO, Text (replicate 80 (CHR ''='')))] \<and>
   length (fst (print_endpoint_discovery_summary exact_arith session_with_health_key)) = 3"
  by (simp add: summary_raises_on_health_key summary_header_def)

section \<open>Properties of the result aggregator\<close>

lemma entry_exec_stmt:
  "entry (exec_stmt k s r) e = (if e = k then apply_stmt s (entry r k) else entry r e)"
  by (cases "map_of r k"; cases "map_of r e")
     (auto simp: entry_def getitem_def exec_stmt_def update_conv' split: option.splits)

lemma entry_exec_stmts_other:
  "e \<noteq> k \<Longrightarrow> entry (exec_stmts k ss r) e = entry r e"
  unfolding exec_stmts_def by (induction ss arbitrary: r) (simp_all add: entry_exec_stmt)

lemma entry_exec_stmts_same:
  "entry (exec_stmts k ss r) k = fold apply_stmt ss (entry r k)"
  unfolding exec_stmts_def by (induction ss arbitrary: r) (simp_all add: entry_exec_stmt)

lemma take_is_prefix: "take (length xs) ys = xs \<longleftrightarrow> (\<exists>zs. ys = xs @ zs)"
proof
  assume "take (length xs) ys = xs"
  then have "ys = xs @ drop (length xs) ys" by (metis append_take_drop_id)
  then show "\<exists>zs. ys = xs @ zs" ..
next
  assume "\<exists>zs. ys = xs @ zs"
  then show "take (length xs) ys = xs" by auto
qed

lemma grows_iff:
  "grows d d' \<longleftrightarrow>
     (\<exists>cs. status_codes d' = status_codes d @ cs) \<and>
     (\<exists>ts. response_times d' = response_times d @ ts) \<and>
     test_count d \<le> test_count d' \<and> passed d \<le> passed d' \<and> failed d \<le> failed d'"
  by (simp add: grows_def take_is_prefix)

lemma grows_refl: "grows d d"
  by (simp add: grows_def)

lemma grows_trans: "grows a b \<Longrightarrow> grows b c \<Longrightarrow> grows a c"
  by (auto simp: grows_iff)

lemma grows_apply_stmt: "grows d (apply_stmt s d)"
  by (cases s) (simp_all add: grows_def)

lemma grows_exec_stmt: "grows (entry r e) (entry (exec_stmt k s r) e)"
  by (simp add: entry_exec_stmt grows_refl grows_apply_stmt)

lemma grows_run_session: "grows (entry r e) (entry (run_session ws r) e)"
proof (induction ws arbitrary: r)
  case Nil
  show ?case by (simp add: run_session_def grows_refl)
next
  case (Cons w ws)
  obtain k s where w: "w = (k, s)" by (cases w)
  have "grows (entry r e) (entry (exec_stmt k s r) e)" by (rule grows_exec_stmt)
  moreover have "grows (entry (exec_stmt k s r) e) (entry (run_session ws (exec_stmt k s r)) e)"
    by (rule Cons.IH)
  ultimately show ?case unfolding w by (simp add: run_session_def grows_trans)
qed

lemma keys_exec_stmt: "set (map fst (exec_stmt k s r)) = insert k (set (map fst r))"
  by (cases "map_of r k") (auto simp: exec_stmt_def getitem_def AList.dom_update dest: map_of_SomeD weak_map_of_SomeI)

lemma keys_run_session: "set (map fst r) \<subseteq> set (map fst (run_session ws r))"
proof (induction ws arbitrary: r)
  case Nil
  show ?case by (simp add: run_session_def)
next
  case (Cons w ws)
  obtain k s where w: "w = (k, s)" by (cases w)
  have "set (map fst r) \<subseteq> set (map fst (exec_stmt k s r))"
    by (simp only: keys_exec_stmt) blast
  also have "\<dots> \<subseteq> set (map fst (run_session ws (exec_stmt k s r)))" by (rule Cons.IH)
  finally show ?case unfolding w by (simp add: run_session_def)
qed

lemma exec_stmts_session: "exec_stmts k ss r = run_session (map (Pair k) ss) r"
  unfolding exec_stmts_def run_session_def by (induction ss arbitrary: r) simp_all

lemma grows_exec_stmts: "grows (entry r e) (entry (exec_stmts k ss r) e)"
  by (simp only: exec_stmts_session grows_run_session)

text \<open>
  Claim C7. Every statement by which a test writes to an entry extends a list at its end
  or raises a counter by a non-negative amount. So over any sequence of such statements,
  under any keys, every endpoint's lists keep their old elements as a prefix, every
  counter is non-decreasing and no key disappears; \<open>test_basic_get\<close>, the recording
  loop of \<open>test_concurrent_requests\<close> and \<open>do_request\<close> are such sequences.
\<close>

theorem recording_only_appends_and_increments:
  "grows d (apply_stmt s d) \<and>
   grows (entry r e) (entry (run_session ws r) e) \<and>
   set (map fst r) \<subseteq> set (map fst (run_session ws r)) \<and>
   grows (entry r e) (entry (test_basic_get k code t r) e) \<and>
   grows (entry r e) (entry (record_result k res r) e) \<and>
   grows (entry r e) (entry (fst (do_request k i out t r)) e)"
proof (intro conjI)
  show "grows d (apply_stmt s d)" by (rule grows_apply_stmt)
  show "grows (entry r e) (entry (run_session ws r) e)" by (rule grows_run_session)
  show "set (map fst r) \<subseteq> set (map fst (run_session ws r))" by (rule keys_run_session)
  show "grows (entry r e) (entry (test_basic_get k code t r) e)"
    unfolding test_basic_get_def by (rule grows_exec_stmts)
  show "grows (entry r e) (entry (record_result k res r) e)"
    unfolding record_result_def by (cases res) (simp_all only: request_outcome.case grows_exec_stmts)
  show "grows (entry r e) (entry (fst (do_request k i out t r)) e)"
    unfolding do_request_def by (cases out) (simp_all only: get_outcome.case fst_conv grows_exec_stmts)
qed

lemma sum_count_code: "sum_list (map snd (count_code c d)) = sum_list (map snd d) + 1"
  unfolding count_code_def
  by (induction d) (auto simp: dict_get_def split: option.splits)

lemma sum_fold_count_code:
  "sum_list (map snd (fold count_code cs d)) = sum_list (map snd d) + length cs"
  by (induction cs arbitrary: d) (simp_all add: sum_count_code)

lemma sum_status_distribution: "sum_list (map snd (status_distribution cs)) = length cs"
  by (simp add: status_distribution_def sum_fold_count_code)

lemma sum_block_codes:
  "sum_list (map snd (block_codes (block_of fa r k))) = length (status_codes (entry r k))"
proof -
  have "mset (map snd (sort_key fst (status_distribution (status_codes (entry r k))))) =
        mset (map snd (status_distribution (status_codes (entry r k))))" by simp
  then have "sum_list (map snd (sort_key fst (status_distribution (status_codes (entry r k))))) =
        sum_list (map snd (status_distribution (status_codes (entry r k))))"
    by (metis sum_mset_sum_list)
  then show ?thesis by (simp add: block_of_def Let_def sum_status_distribution)
qed

text \<open>
  Claim C8. When \<open>requests.get\<close> raises a request exception in \<open>do_request\<close>, the
  endpoint's \<open>test_count\<close> and \<open>failed\<close> grow by one, \<open>passed\<close> and both lists stay as
  they are, no other endpoint changes, and the result has \<open>ok\<close> false and status 0. If
  \<open>test_count\<close> was at least the number of recorded status codes before, it is strictly
  larger than the total of the printed histogram afterwards.
\<close>

theorem do_request_exception_counts_without_status:
  assumes "do_request p i (Raised err) t r = (r', res)"
  shows "test_count (entry r' p) = test_count (entry r p) + 1 \<and>
         failed (entry r' p) = failed (entry r p) + 1 \<and>
         passed (entry r' p) = passed (entry r p) \<and>
         status_codes (entry r' p) = status_codes (entry r p) \<and>
         response_times (entry r' p) = response_times (entry r p) \<and>
         (\<forall>e. e \<noteq> p \<longrightarrow> entry r' e = entry r e) \<and>
         res_ok res = False \<and> res_status res = 0 \<and>
         (int (length (status_codes (entry r p))) \<le> test_count (entry r p) \<longrightarrow>
            int (sum_list (map snd (block_codes (block_of fa r' p)))) < test_count (entry r' p))"
proof -
  from assms have r': "r' = exec_stmts p [IncTestCount, IncFailed] r"
    and res: "res = \<lparr>res_i = i, res_status = 0, res_time = t, res_ok = False, res_error = Some err\<rparr>"
    by (simp_all add: do_request_def)
  have same: "entry r' p = (entry r p)\<lparr>test_count := test_count (entry r p) + 1,
                                         failed := failed (entry r p) + 1\<rparr>"
    by (simp add: r' entry_exec_stmts_same)
  have other: "\<forall>e. e \<noteq> p \<longrightarrow> entry r' e = entry r e"
    by (simp add: r' entry_exec_stmts_other)
  show ?thesis
    using other by (simp add: same res sum_block_codes)
qed

text \<open>
  The theorem of C8 at the first request of a session, which times out.
\<close>

theorem do_request_exception_counts_without_status_witness:
  "do_request ''/api/test/3'' 0 (Raised ''timed out'') 30 endpoint_results_init =
     ([(''/api/test/3'', \<lparr>status_codes = [], response_times = [], test_count = 1, passed = 0, failed = 1\<rparr>)],
      \<lparr>res_i = 0, res_status = 0, res_time = 30, res_ok = False, res_error = Some ''timed out''\<rparr>) \<and>
   int (length (status_codes (entry endpoint_results_init ''/api/test/3''))) \<le>
     test_count (entry endpoint_results_init ''/api/test/3'') \<and>
   int (sum_list (map snd (block_codes (block_of exact_arith
     [(''/api/test/3'', \<lparr>status_codes = [], response_times = [], test_count = 1, passed = 0, failed = 1\<rparr>)]
     ''/api/test/3'')))) <
   test_count (entry
     [(''/api/test/3'', \<lparr>status_codes = [], response_times = [], test_count = 1, passed = 0, failed = 1\<rparr>)]
     ''/api/test/3'')"
proof -
  have h: "do_request ''/api/test/3'' 0 (Raised ''timed out'') 30 endpoint_results_init =
     ([(''/api/test/3'', \<lparr>status_codes = [], response_times = [], test_count = 1, passed = 0, failed = 1\<rparr>)],
      \<lparr>res_i = 0, res_status = 0, res_time = 30, res_ok = False, res_error = Some ''timed out''\<rparr>)"
    by (simp add: do_request_def exec_stmts_def exec_stmt_def getitem_def endpoint_results_init_def
        default_factory_def)
  have g: "int (length (status_codes (entry endpoint_results_init ''/api/test/3''))) \<le>
     test_count (entry endpoint_results_init ''/api/test/3'')"
    by (simp add: entry_def getitem_def endpoint_results_init_def default_factory_def)
  note t = do_request_exception_counts_without_status [OF h, of exact_arith]
  from t g have "int (sum_list (map snd (block_codes (block_of exact_arith
     [(''/api/test/3'', \<lparr>status_codes = [], response_times = [], test_count = 1, passed = 0, failed = 1\<rparr>)]
     ''/api/test/3'')))) <
   test_count (entry
     [(''/api/test/3'', \<lparr>status_codes = [], response_times = [], test_count = 1, passed = 0, failed = 1\<rparr>)]
     ''/api/test/3'')" by blast
  with h g show ?thesis by blast
qed

text \<open>
  The theorem of C7 at a first \<open>test_basic_get\<close> that saw a 500.
\<close>

theorem recording_only_appends_and_increments_witness:
  "entry (test_basic_get ''/api/test/1'' 500 (1 / 2) endpoint_results_init) ''/api/test/1'' =
     \<lparr>status_codes = [500], response_times = [1 / 2], test_count = 1, passed = 0, failed = 1\<rparr> \<and>
   grows (entry endpoint_results_init ''/api/test/1'')
     (entry (test_basic_get ''/api/test/1'' 500 (1 / 2) endpoint_results_init) ''/api/test/1'')"
proof -
  have "entry (test_basic_get ''/api/test/1'' 500 (1 / 2) endpoint_results_init) ''/api/test/1'' =
     \<lparr>status_codes = [500], response_times = [1 / 2], test_count = 1, passed = 0, failed = 1\<rparr>"
    unfolding test_basic_get_def entry_exec_stmts_same
    by (simp add: entry_def getitem_def endpoint_results_init_def default_factory_def HTTP_OK_def)
  then show ?thesis
    using recording_only_appends_and_increments
      [of default_factory IncFailed endpoint_results_init "''/api/test/1''" "[]"
          "''/api/test/1''" 500 "1 / 2" "Error []" 0 "Raised []"]
    by blast
qed

text \<open>
  Claim C6, amended. The aggregator starts empty and maps an endpoint path to a dict with
  five fields: the lists \<open>status_codes\<close> and \<open>response_times\<close> and the counters
  \<open>test_count\<close>, \<open>passed\<close>, \<open>failed\<close>. Access to a key that is absent inserts the value
  of the default factory, with both lists empty and every counter zero, and returns it;
  access to a present key returns the stored entry and leaves the aggregator as it is.
\<close>

theorem entry_created_by_default_factory:
  "map fst (items d) = [''status_codes'', ''response_times'', ''test_count'', ''passed'', ''failed''] \<and>
   length (items d) = 5 \<and>
   endpoint_results_init = [] \<and>
   (map_of r k = None \<longrightarrow>
      getitem r k = (r @ [(k, default_factory)], default_factory) \<and>
      map_of (fst (getitem r k)) k = Some default_factory) \<and>
   (\<forall>e. map_of r k = Some e \<longrightarrow> getitem r k = (r, e)) \<and>
   items default_factory =
     [(''status_codes'', IntList []), (''response_times'', FloatList []),
      (''test_count'', IntVal 0), (''passed'', IntVal 0), (''failed'', IntVal 0)]"
  by (auto simp: items_def getitem_def default_factory_def endpoint_results_init_def map_add_def)

text \<open>
  The theorem of C6 at the first and the second access of a key.
\<close>

theorem entry_created_by_default_factory_witness:
  "map_of endpoint_results_init ''/api/test/1'' = None \<and>
   getitem endpoint_results_init ''/api/test/1'' =
     ([(''/api/test/1'', default_factory)], default_factory) \<and>
   map_of [(''/api/test/1'', default_factory)] ''/api/test/1'' = Some default_factory \<and>
   getitem [(''/api/test/1'', default_factory)] ''/api/test/1'' =
     ([(''/api/test/1'', default_factory)], default_factory)"
proof -
  have a: "map_of endpoint_results_init ''/api/test/1'' = None"
    by (simp add: endpoint_results_init_def)
  have b: "map_of [(''/api/test/1'', default_factory)] ''/api/test/1'' = Some default_factory"
    by simp
  from a entry_created_by_default_factory [of default_factory endpoint_results_init "''/api/test/1''"]
  have c: "getitem endpoint_results_init ''/api/test/1'' =
     (endpoint_results_init @ [(''/api/test/1'', default_factory)], default_factory)" by blast
  from b entry_created_by_default_factory
    [of default_factory "[(''/api/test/1'', default_factory)]" "''/api/test/1''"]
  have d: "getitem [(''/api/test/1'', default_factory)] ''/api/test/1'' =
     ([(''/api/test/1'', default_factory)], default_factory)" by blast
  from a b c d show ?thesis by (simp add: endpoint_results_init_def)
qed

text \<open>
  Claim C6 as stated speaks of four fields; the entry created on first access has five.
\<close>

theorem entry_has_not_four_fields:
  "length (items (snd (getitem endpoint_results_init ''/api/test/1''))) \<noteq> 4"
  by (simp add: items_def)


section \<open>Properties of the schema manager\<close>

lemma get_schema_cached:
  "files w (schema_file self) = Some (Document doc) \<Longrightarrow> get_schema ev self w = (w, Inr doc)"
  by (simp add: get_schema_def)

lemma endpoint_schema_of_missing_path:
  assumes "map_of kvs ''paths'' = Some (JObj ps) \<or> map_of kvs ''paths'' = None \<and> ps = []"
    and "map_of ps path = None"
  shows "endpoint_schema_of (JObj kvs) path method =
           Inl (ValueError (''Endpoint '' @ path @ '' not found in schema''))"
proof -
  from assms(2) have "path \<notin> fst ` set ps" by (simp add: map_of_eq_None_iff)
  then show ?thesis using assms(1) by (auto simp: endpoint_schema_of_def)
qed

lemma endpoint_schema_of_present_path:
  assumes "map_of kvs ''paths'' = Some (JObj ps)"
    and "map_of ps path = Some (JObj ms)"
  shows "endpoint_schema_of (JObj kvs) path method =
           (case map_of ms (lower method) of
              None \<Rightarrow> Inl (ValueError (''Method '' @ method @ '' not supported for '' @ path))
            | Some v \<Rightarrow> Inr v)"
proof -
  from assms(2) have p: "path \<in> fst ` set ps" by (metis map_of_eq_None_iff option.distinct(1))
  show ?thesis
  proof (cases "map_of ms (lower method)")
    case None
    then have "lower method \<notin> fst ` set ms" by (simp add: map_of_eq_None_iff)
    then show ?thesis using p assms None by (simp add: endpoint_schema_of_def)
  next
    case (Some v)
    then have "lower method \<in> fst ` set ms" by (metis map_of_eq_None_iff option.distinct(1))
    then show ?thesis using p assms Some by (simp add: endpoint_schema_of_def)
  qed
qed

text \<open>
  Claim C2, amended. For a cached schema document whose \<open>paths\<close> (when present) maps
  paths to mappings, \<open>get_endpoint_schema(path, method)\<close> looks the method up in lower
  case: it returns what is stored at \<open>paths[path][method.lower()]\<close> when both keys exist,
  raises a \<open>ValueError\<close> naming the path when the path is absent, and a \<open>ValueError\<close>
  naming the method (as given) and the path when the lower-cased method is absent under
  the path. It raises exactly in these two cases, and the world is left as it was.
\<close>

theorem get_endpoint_schema_lookup:
  assumes "files w (schema_file self) = Some (Document (JObj kvs))"
    and "map_of kvs ''paths'' = Some (JObj ps) \<or> map_of kvs ''paths'' = None \<and> ps = []"
    and "\<forall>v \<in> snd ` set ps. \<exists>ms. v = JObj ms"
  shows
   "(map_of ps path = None \<longrightarrow>
       get_endpoint_schema ev self path method w =
         (w, Inl (ValueError (''Endpoint '' @ path @ '' not found in schema'')))) \<and>
    (\<forall>ms. map_of ps path = Some (JObj ms) \<and> map_of ms (lower method) = None \<longrightarrow>
       get_endpoint_schema ev self path method w =
         (w, Inl (ValueError (''Method '' @ method @ '' not supported for '' @ path)))) \<and>
    (\<forall>ms v. map_of ps path = Some (JObj ms) \<and> map_of ms (lower method) = Some v \<longrightarrow>
       get_endpoint_schema ev self path method w = (w, Inr v)) \<and>
    ((\<exists>e. snd (get_endpoint_schema ev self path method w) = Inl e) \<longleftrightarrow>
       map_of ps path = None \<or>
       (\<exists>ms. map_of ps path = Some (JObj ms) \<and> map_of ms (lower method) = None))"
proof -
  have g: "get_endpoint_schema ev self path method w = (w, endpoint_schema_of (JObj kvs) path method)"
    by (simp add: get_endpoint_schema_def get_schema_cached [OF assms(1)])
  show ?thesis
  proof (cases "map_of ps path")
    case None
    then show ?thesis
      using endpoint_schema_of_missing_path [OF assms(2) None] by (simp add: g)
  next
    case (Some v)
    then have "v \<in> snd ` set ps" by (force dest: map_of_SomeD)
    then obtain ms where v: "v = JObj ms" using assms(3) by blast
    from Some assms(2) have t: "map_of kvs ''paths'' = Some (JObj ps)" by auto
    have e: "endpoint_schema_of (JObj kvs) path method =
           (case map_of ms (lower method) of
              None \<Rightarrow> Inl (ValueError (''Method '' @ method @ '' not supported for '' @ path))
            | Some v \<Rightarrow> Inr v)"
      using endpoint_schema_of_present_path [OF t] Some v by simp
    show ?thesis
      by (cases "map_of ms (lower method)") (simp_all add: g e Some v)
  qed
qed

lemma set_fst_example_paths: "\<forall>v \<in> snd ` set example_paths. \<exists>ms. v = JObj ms"
  by (simp add: example_paths_def)

text \<open>
  The theorem of C2 at a cached document, for a method given in upper case and for a
  path that is missing.
\<close>

theorem get_endpoint_schema_lookup_witness:
  "files (world_with_cache (JObj example_schema_top)) (schema_file example_manager) =
     Some (Document (JObj example_schema_top)) \<and>
   map_of example_schema_top ''paths'' = Some (JObj example_paths) \<and>
   map_of example_paths ''/api/test/2'' = Some (JObj [(''get'', JObj [(''summary'', JStr ''two'')])]) \<and>
   map_of [(''get'', JObj [(''summary'', JStr ''two'')])] (lower ''GET'') =
     Some (JObj [(''summary'', JStr ''two'')]) \<and>
   get_endpoint_schema offline_env example_manager ''/api/test/2'' ''GET''
       (world_with_cache (JObj example_schema_top)) =
     (world_with_cache (JObj example_schema_top), Inr (JObj [(''summary'', JStr ''two'')])) \<and>
   map_of example_paths ''/api/test/9'' = None \<and>
   get_endpoint_schema offline_env example_manager ''/api/test/9'' ''get''
       (world_with_cache (JObj example_schema_top)) =
     (world_with_cache (JObj example_schema_top),
      Inl (ValueError (''Endpoint '' @ ''/api/test/9'' @ '' not found in schema'')))"
proof -
  have a: "files (world_with_cache (JObj example_schema_top)) (schema_file example_manager) =
     Some (Document (JObj example_schema_top))"
    by (simp add: world_with_cache_def)
  have b: "map_of example_schema_top ''paths'' = Some (JObj example_paths)"
    by (simp add: example_schema_top_def)
  have c: "map_of example_paths ''/api/test/2'' = Some (JObj [(''get'', JObj [(''summary'', JStr ''two'')])])"
    by (simp add: example_paths_def)
  have d: "map_of [(''get'', JObj [(''summary'', JStr ''two'')])] (lower ''GET'') =
     Some (JObj [(''summary'', JStr ''two'')])"
    by code_simp
  have n: "map_of example_paths ''/api/test/9'' = None"
    by (simp add: example_paths_def)
  note t = get_endpoint_schema_lookup [OF a disjI1 [OF b] set_fst_example_paths]
  from t [of "''/api/test/2''" offline_env "''GET''"] c d
  have r1: "get_endpoint_schema offline_env example_manager ''/api/test/2'' ''GET''
       (world_with_cache (JObj example_schema_top)) =
     (world_with_cache (JObj example_schema_top), Inr (JObj [(''summary'', JStr ''two'')]))"
    by blast
  from t [of "''/api/test/9''" offline_env "''get''"] n
  have r2: "get_endpoint_schema offline_env example_manager ''/api/test/9'' ''get''
       (world_with_cache (JObj example_schema_top)) =
     (world_with_cache (JObj example_schema_top),
      Inl (ValueError (''Endpoint '' @ ''/api/test/9'' @ '' not found in schema'')))"
    by blast
  from a b c d n r1 r2 show ?thesis by blast
qed

text \<open>
  Claim C2 as stated fails in both directions for the method \<open>GET\<close>: under
  \<open>/api/test/1\<close> the key \<open>GET\<close> exists and the call raises; under \<open>/api/test/2\<close> the
  key \<open>GET\<close> is absent and the call returns what is stored under \<open>get\<close>.
\<close>

theorem get_endpoint_schema_method_key_counterexample:
  "map_of example_schema_top ''paths'' = Some (JObj example_paths) \<and>
   map_of example_paths ''/api/test/1'' = Some (JObj [(''GET'', JObj [(''summary'', JStr ''one'')])]) \<and>
   map_of [(''GET'', JObj [(''summary'', JStr ''one'')])] ''GET'' = Some (JObj [(''summary'', JStr ''one'')]) \<and>
   snd (get_endpoint_schema offline_env example_manager ''/api/test/1'' ''GET''
          (world_with_cache (JObj example_schema_top))) =
     Inl (ValueError ''Method GET not supported for /api/test/1'') \<and>
   map_of example_paths ''/api/test/2'' = Some (JObj [(''get'', JObj [(''summary'', JStr ''two'')])]) \<and>
   map_of [(''get'', JObj [(''summary'', JStr ''two'')])] ''GET'' = None \<and>
   snd (get_endpoint_schema offline_env example_manager ''/api/test/2'' ''GET''
          (world_with_cache (JObj example_schema_top))) =
     Inr (JObj [(''summary'', JStr ''two'')])"
  unfolding example_schema_top_def example_paths_def world_with_cache_def example_manager_def
    offline_env_def
  by code_simp


lemma test_endpoints_of_paths:
  assumes "map_of kvs ''paths'' = Some (JObj ps)"
  shows "test_endpoints_of (JObj kvs) =
           Inr (sort (filter (\<lambda>path. startswith path ''/api/test/'') (map fst ps)))"
  using assms by (simp add: test_endpoints_of_def)

lemma test_endpoints_of_no_paths:
  assumes "map_of kvs ''paths'' = None"
  shows "test_endpoints_of (JObj kvs) = Inr []"
  using assms by (simp add: test_endpoints_of_def)

text \<open>
  Claim C5. For a cached schema document, \<open>get_all_test_endpoints\<close> returns the keys of
  \<open>paths\<close> that start with \<open>/api/test/\<close>, each once and nothing else, in sorted order;
  for a document without a \<open>paths\<close> key it returns the empty list. The world is left as
  it was.
\<close>

theorem get_all_test_endpoints_sorted_filter:
  assumes "files w (schema_file self) = Some (Document (JObj kvs))"
  shows
   "(map_of kvs ''paths'' = None \<longrightarrow> get_all_test_endpoints ev self w = (w, Inr [])) \<and>
    (\<forall>ps. map_of kvs ''paths'' = Some (JObj ps) \<and> distinct (map fst ps) \<longrightarrow>
       (\<exists>ks. get_all_test_endpoints ev self w = (w, Inr ks) \<and>
             set ks = {k \<in> set (map fst ps). startswith k ''/api/test/''} \<and>
             distinct ks \<and> sorted ks))"
proof -
  have g: "get_all_test_endpoints ev self w = (w, test_endpoints_of (JObj kvs))"
    by (simp add: get_all_test_endpoints_def get_schema_cached [OF assms])
  have "get_all_test_endpoints ev self w = (w, Inr [])" if "map_of kvs ''paths'' = None"
    using that by (simp add: g test_endpoints_of_no_paths)
  moreover have "\<exists>ks. get_all_test_endpoints ev self w = (w, Inr ks) \<and>
             set ks = {k \<in> set (map fst ps). startswith k ''/api/test/''} \<and>
             distinct ks \<and> sorted ks"
    if p: "map_of kvs ''paths'' = Some (JObj ps) \<and> distinct (map fst ps)" for ps
  proof -
    let ?ks = "sort (filter (\<lambda>path. startswith path ''/api/test/'') (map fst ps))"
    have "get_all_test_endpoints ev self w = (w, Inr ?ks)"
      using p by (simp add: g test_endpoints_of_paths)
    moreover have "set ?ks = {k \<in> set (map fst ps). startswith k ''/api/test/''}" by auto
    moreover have "distinct ?ks" using p by simp
    moreover have "sorted ?ks" by simp
    ultimately show ?thesis by blast
  qed
  ultimately show ?thesis by blast
qed

text \<open>
  The theorem of C5 at a document with two test paths and a health path.
\<close>

theorem get_all_test_endpoints_sorted_filter_witness:
  "files (world_with_cache (JObj example_schema_top)) (schema_file example_manager) =
     Some (Document (JObj example_schema_top)) \<and>
   map_of example_schema_top ''paths'' = Some (JObj example_paths) \<and>
   distinct (map fst example_paths) \<and>
   get_all_test_endpoints offline_env example_manager (world_with_cache (JObj example_schema_top)) =
     (world_with_cache (JObj example_schema_top), Inr [''/api/test/1'', ''/api/test/2'']) \<and>
   (\<exists>ks. get_all_test_endpoints offline_env example_manager (world_with_cache (JObj example_schema_top)) =
           (world_with_cache (JObj example_schema_top), Inr ks) \<and>
         set ks = {k \<in> set (map fst example_paths). startswith k ''/api/test/''} \<and>
         distinct ks \<and> sorted ks)"
proof -
  have a: "files (world_with_cache (JObj example_schema_top)) (schema_file example_manager) =
     Some (Document (JObj example_schema_top))"
    by (simp add: world_with_cache_def)
  have b: "map_of example_schema_top ''paths'' = Some (JObj example_paths)"
    by (simp add: example_schema_top_def)
  have c: "distinct (map fst example_paths)"
    by (simp add: example_paths_def)
  have s: "sort (filter (\<lambda>path. startswith path ''/api/test/'') (map fst example_paths)) =
      [''/api/test/1'', ''/api/test/2'']"
    unfolding example_paths_def by code_simp
  have d: "get_all_test_endpoints offline_env example_manager (world_with_cache (JObj example_schema_top)) =
     (world_with_cache (JObj example_schema_top), Inr [''/api/test/1'', ''/api/test/2''])"
    by (simp add: get_all_test_endpoints_def get_schema_cached [OF a] test_endpoints_of_paths [OF b] s)
  from get_all_test_endpoints_sorted_filter [OF a, of offline_env] b c
  have e: "\<exists>ks. get_all_test_endpoints offline_env example_manager (world_with_cache (JObj example_schema_top)) =
           (world_with_cache (JObj example_schema_top), Inr ks) \<and>
         set ks = {k \<in> set (map fst example_paths). startswith k ''/api/test/''} \<and>
         distinct ks \<and> sorted ks"
    by blast
  from a b c d e show ?thesis by blast
qed

lemma download_schema_cached:
  assumes "files w (schema_file self) \<noteq> None" "\<not> force"
  shows "download_schema ev self force w =
           (log INFO ('' OpenAPI schema already exists: '' @ schema_file self) w, Inr (schema_file self))"
  using assms by (simp add: download_schema_def)

lemma download_schema_request:
  assumes "files w (schema_file self) = None \<or> force"
  shows "requests_sent (fst (download_schema ev self force w)) =
           requests_sent w @ [schema_request ev self]"
  using assms
  by (auto simp: download_schema_def Let_def log_def reraise_def split: sum.splits)

lemma download_schema_saved:
  assumes "files w (schema_file self) = None \<or> force"
    and "http ev (schema_request ev self) = Inr response"
    and "raise_for_status response = Inr ()"
    and "yaml_safe_load ev (text_of response) = Inr schema"
    and "open_w ev (schema_file self) = Inr ()"
    and "json_dump ev schema = Inr doc"
  shows "snd (download_schema ev self force w) = Inr (schema_file self) \<and>
         files (fst (download_schema ev self force w)) =
           (files w)(schema_file self \<mapsto> Document doc) \<and>
         written (fst (download_schema ev self force w)) =
           written w @ [(schema_file self, Document doc)]"
  using assms by (auto simp: download_schema_def Let_def log_def)

lemma download_schema_dump_raised:
  assumes "files w (schema_file self) = None \<or> force"
    and "http ev (schema_request ev self) = Inr response"
    and "raise_for_status response = Inr ()"
    and "yaml_safe_load ev (text_of response) = Inr schema"
    and "open_w ev (schema_file self) = Inr ()"
    and "json_dump ev schema = Inl e"
  shows "snd (download_schema ev self force w) = Inl e \<and>
         files (fst (download_schema ev self force w)) = (files w)(schema_file self \<mapsto> Unreadable)"
  using assms by (auto simp: download_schema_def Let_def log_def reraise_def)

lemma download_schema_failed:
  assumes "files w (schema_file self) = None \<or> force"
    and "http ev (schema_request ev self) = Inl e \<or>
         (\<exists>response. http ev (schema_request ev self) = Inr response \<and> raise_for_status response = Inl e)"
  shows "snd (download_schema ev self force w) = Inl e \<and>
         files (fst (download_schema ev self force w)) = files w \<and>
         written (fst (download_schema ev self force w)) = written w"
  using assms by (auto simp: download_schema_def Let_def log_def reraise_def)

text \<open>
  Claim C3, amended. When the cache file exists and \<open>force\<close> is false,
  \<open>download_schema\<close> returns the file's path, sends no request and writes nothing. In
  every other state it sends one GET to the base URL followed by the YAML endpoint. When
  that request returns a response, its status check passes, the YAML parses and the file
  opens for writing, then either \<open>json.dump\<close> serialises the parsed value, the cache file
  holds it as JSON and the file's path is returned, or \<open>json.dump\<close> raises, the exception
  leaves the call and the file is left with text that is no document.
\<close>

theorem download_schema_cache_or_download:
  "(files w (schema_file self) \<noteq> None \<and> \<not> force \<longrightarrow>
      snd (download_schema ev self force w) = Inr (schema_file self) \<and>
      files (fst (download_schema ev self force w)) = files w \<and>
      requests_sent (fst (download_schema ev self force w)) = requests_sent w \<and>
      written (fst (download_schema ev self force w)) = written w) \<and>
   (files w (schema_file self) = None \<or> force \<longrightarrow>
      requests_sent (fst (download_schema ev self force w)) =
        requests_sent w @ [schema_request ev self] \<and>
      req_method (schema_request ev self) = GET \<and>
      req_url (schema_request ev self) = base_url self @ OPENAPI_YAML_ENDPOINT ev \<and>
      (\<forall>response schema.
         http ev (schema_request ev self) = Inr response \<and>
         raise_for_status response = Inr () \<and>
         yaml_safe_load ev (text_of response) = Inr schema \<and>
         open_w ev (schema_file self) = Inr () \<longrightarrow>
           (\<forall>doc. json_dump ev schema = Inr doc \<longrightarrow>
              snd (download_schema ev self force w) = Inr (schema_file self) \<and>
              files (fst (download_schema ev self force w)) =
                (files w)(schema_file self \<mapsto> Document doc) \<and>
              written (fst (download_schema ev self force w)) =
                written w @ [(schema_file self, Document doc)]) \<and>
           (\<forall>e. json_dump ev schema = Inl e \<longrightarrow>
              snd (download_schema ev self force w) = Inl e \<and>
              files (fst (download_schema ev self force w)) =
                (files w)(schema_file self \<mapsto> Unreadable))))"
proof -
  have a: "files w (schema_file self) \<noteq> None \<and> \<not> force \<longrightarrow>
      snd (download_schema ev self force w) = Inr (schema_file self) \<and>
      files (fst (download_schema ev self force w)) = files w \<and>
      requests_sent (fst (download_schema ev self force w)) = requests_sent w \<and>
      written (fst (download_schema ev self force w)) = written w"
    by (simp add: download_schema_cached log_def)
  have b: "files w (schema_file self) = None \<or> force \<longrightarrow>
      requests_sent (fst (download_schema ev self force w)) =
        requests_sent w @ [schema_request ev self]"
    using download_schema_request by blast
  have c: "req_method (schema_request ev self) = GET \<and>
      req_url (schema_request ev self) = base_url self @ OPENAPI_YAML_ENDPOINT ev"
    by (simp add: schema_request_def)
  have d: "snd (download_schema ev self force w) = Inr (schema_file self) \<and>
              files (fst (download_schema ev self force w)) =
                (files w)(schema_file self \<mapsto> Document doc) \<and>
              written (fst (download_schema ev self force w)) =
                written w @ [(schema_file self, Document doc)]"
    if "files w (schema_file self) = None \<or> force"
      and "http ev (schema_request ev self) = Inr response \<and>
         raise_for_status response = Inr () \<and>
         yaml_safe_load ev (text_of response) = Inr schema \<and>
         open_w ev (schema_file self) = Inr ()"
      and "json_dump ev schema = Inr doc"
    for response schema doc
    using that download_schema_saved [of w self force ev response schema doc] by blast
  have e: "snd (download_schema ev self force w) = Inl e \<and>
              files (fst (download_schema ev self force w)) =
                (files w)(schema_file self \<mapsto> Unreadable)"
    if "files w (schema_file self) = None \<or> force"
      and "http ev (schema_request ev self) = Inr response \<and>
         raise_for_status response = Inr () \<and>
         yaml_safe_load ev (text_of response) = Inr schema \<and>
         open_w ev (schema_file self) = Inr ()"
      and "json_dump ev schema = Inl e"
    for response schema e
    using that download_schema_dump_raised [of w self force ev response schema e] by blast
  show ?thesis
    using a b c d e by (intro conjI impI allI) blast+
qed

text \<open>
  The theorem of C3 at a cached file without and with \<open>force\<close>, and at a YAML text with a
  date.
\<close>

theorem download_schema_cache_or_download_witness:
  "files (world_with_cache JNull) (schema_file example_manager) \<noteq> None \<and>
   snd (download_schema (serving_env 200) example_manager False (world_with_cache JNull)) =
     Inr (schema_file example_manager) \<and>
   files (fst (download_schema (serving_env 200) example_manager False (world_with_cache JNull))) =
     files (world_with_cache JNull) \<and>
   requests_sent (fst (download_schema (serving_env 200) example_manager False (world_with_cache JNull))) =
     [] \<and>
   http (serving_env 200) (schema_request (serving_env 200) example_manager) =
     Inr \<lparr>status_code = 200, text_of = ''paths: {}''\<rparr> \<and>
   raise_for_status \<lparr>status_code = 200, text_of = ''paths: {}''\<rparr> = Inr () \<and>
   yaml_safe_load (serving_env 200) ''paths: {}'' = Inr (YMap [(YStr ''paths'', YMap [])]) \<and>
   open_w (serving_env 200) (schema_file example_manager) = Inr () \<and>
   json_dump (serving_env 200) (YMap [(YStr ''paths'', YMap [])]) = Inr (JObj [(''paths'', JObj [])]) \<and>
   snd (download_schema (serving_env 200) example_manager True (world_with_cache JNull)) =
     Inr (schema_file example_manager) \<and>
   files (fst (download_schema (serving_env 200) example_manager True (world_with_cache JNull))) =
     (files (world_with_cache JNull))
       (schema_file example_manager \<mapsto> Document (JObj [(''paths'', JObj [])])) \<and>
   json_dump dated_env (YMap [(YStr ''released'', YOther ''2020-01-01'')]) = Inl TypeError \<and>
   snd (download_schema dated_env example_manager False empty_world) = Inl TypeError \<and>
   files (fst (download_schema dated_env example_manager False empty_world)) =
     (files empty_world)(schema_file example_manager \<mapsto> Unreadable)"
proof -
  have a: "files (world_with_cache JNull) (schema_file example_manager) \<noteq> None"
    by (simp add: world_with_cache_def)
  have b: "http (serving_env 200) (schema_request (serving_env 200) example_manager) =
     Inr \<lparr>status_code = 200, text_of = ''paths: {}''\<rparr>"
    by (simp add: serving_env_def)
  have c: "raise_for_status \<lparr>status_code = 200, text_of = ''paths: {}''\<rparr> = Inr ()"
    by (simp add: raise_for_status_def)
  have d: "yaml_safe_load (serving_env 200) ''paths: {}'' = Inr (YMap [(YStr ''paths'', YMap [])])"
    by (simp add: serving_env_def)
  have o: "open_w (serving_env 200) (schema_file example_manager) = Inr ()"
    by (simp add: serving_env_def offline_env_def)
  have j: "json_dump (serving_env 200) (YMap [(YStr ''paths'', YMap [])]) =
      Inr (JObj [(''paths'', JObj [])])"
    by (simp add: serving_env_def)
  have e: "requests_sent (world_with_cache JNull) = []"
    by (simp add: world_with_cache_def)
  have b': "http dated_env (schema_request dated_env example_manager) =
     Inr \<lparr>status_code = 200, text_of = ''released: 2020-01-01''\<rparr>"
    by (simp add: dated_env_def)
  have c': "raise_for_status \<lparr>status_code = 200, text_of = ''released: 2020-01-01''\<rparr> = Inr ()"
    by (simp add: raise_for_status_def)
  have d': "yaml_safe_load dated_env ''released: 2020-01-01'' =
      Inr (YMap [(YStr ''released'', YOther ''2020-01-01'')])"
    by (simp add: dated_env_def)
  have o': "open_w dated_env (schema_file example_manager) = Inr ()"
    by (simp add: dated_env_def offline_env_def)
  have j': "json_dump dated_env (YMap [(YStr ''released'', YOther ''2020-01-01'')]) = Inl TypeError"
    by (simp add: dated_env_def)
  have n: "files empty_world (schema_file example_manager) = None"
    by (simp add: empty_world_def)
  note t = download_schema_cache_or_download
    [of "world_with_cache JNull" example_manager False "serving_env 200"]
  note u = download_schema_cache_or_download
    [of "world_with_cache JNull" example_manager True "serving_env 200"]
  note v = download_schema_cache_or_download
    [of empty_world example_manager False dated_env]
  from t a e have r1: "snd (download_schema (serving_env 200) example_manager False (world_with_cache JNull)) =
     Inr (schema_file example_manager) \<and>
   files (fst (download_schema (serving_env 200) example_manager False (world_with_cache JNull))) =
     files (world_with_cache JNull) \<and>
   requests_sent (fst (download_schema (serving_env 200) example_manager False (world_with_cache JNull))) =
     []" by simp
  from u b c d o j have r2: "snd (download_schema (serving_env 200) example_manager True (world_with_cache JNull)) =
     Inr (schema_file example_manager) \<and>
   files (fst (download_schema (serving_env 200) example_manager True (world_with_cache JNull))) =
     (files (world_with_cache JNull))
       (schema_file example_manager \<mapsto> Document (JObj [(''paths'', JObj [])]))"
    by simp
  from v n b' c' d' o' j' have r3: "snd (download_schema dated_env example_manager False empty_world) = Inl TypeError \<and>
   files (fst (download_schema dated_env example_manager False empty_world)) =
     (files empty_world)(schema_file example_manager \<mapsto> Unreadable)"
    by simp
  from a b c d o j j' r1 r2 r3 show ?thesis by blast
qed

text \<open>
  Claim C3 as stated promises the path and the written mapping in every state without a
  usable cache. With the server unreachable and no cache file, the call raises and writes
  nothing; with a YAML text that holds a date, the call raises and leaves a file that is
  no document.
\<close>

theorem download_schema_not_always_path:
  "files empty_world (schema_file example_manager) = None \<and>
   snd (download_schema offline_env example_manager False empty_world) =
     Inl (RequestException ''connection refused'') \<and>
   snd (download_schema offline_env example_manager False empty_world) \<noteq>
     Inr (schema_file example_manager) \<and>
   files (fst (download_schema offline_env example_manager False empty_world)) = Map.empty \<and>
   written (fst (download_schema offline_env example_manager False empty_world)) = [] \<and>
   snd (download_schema dated_env example_manager False empty_world) = Inl TypeError \<and>
   files (fst (download_schema dated_env example_manager False empty_world))
     (schema_file example_manager) = Some Unreadable"
  by (simp add: download_schema_def Let_def log_def reraise_def empty_world_def offline_env_def
      dated_env_def raise_for_status_def schema_request_def)

text \<open>
  Claim C4. When the download is attempted and \<open>requests.get\<close> raises, or the status
  check of its response raises, \<open>download_schema\<close> raises that same exception, and the
  files on disk are as before: nothing is created or written.
\<close>

theorem download_schema_failure_keeps_cache:
  assumes "files w (schema_file self) = None \<or> force"
    and "http ev (schema_request ev self) = Inl e \<or>
         (\<exists>response. http ev (schema_request ev self) = Inr response \<and>
                     raise_for_status response = Inl e)"
  shows "snd (download_schema ev self force w) = Inl e \<and>
         files (fst (download_schema ev self force w)) = files w \<and>
         written (fst (download_schema ev self force w)) = written w"
  using assms by (rule download_schema_failed)

text \<open>
  The theorem of C4 at an unreachable server without a cache, and at a 503 answer to a
  forced download over an existing cache.
\<close>

theorem download_schema_failure_keeps_cache_witness:
  "files empty_world (schema_file example_manager) = None \<and>
   http offline_env (schema_request offline_env example_manager) =
     Inl (RequestException ''connection refused'') \<and>
   snd (download_schema offline_env example_manager False empty_world) =
     Inl (RequestException ''connection refused'') \<and>
   files (fst (download_schema offline_env example_manager False empty_world)) = files empty_world \<and>
   http (serving_env 503) (schema_request (serving_env 503) example_manager) =
     Inr \<lparr>status_code = 503, text_of = ''paths: {}''\<rparr> \<and>
   raise_for_status \<lparr>status_code = 503, text_of = ''paths: {}''\<rparr> = Inl (HTTPError 503) \<and>
   snd (download_schema (serving_env 503) example_manager True (world_with_cache JNull)) =
     Inl (HTTPError 503) \<and>
   files (fst (download_schema (serving_env 503) example_manager True (world_with_cache JNull))) =
     files (world_with_cache JNull) \<and>
   written (fst (download_schema (serving_env 503) example_manager True (world_with_cache JNull))) =
     written (world_with_cache JNull)"
proof -
  have a: "files empty_world (schema_file example_manager) = None"
    by (simp add: empty_world_def)
  have b: "http offline_env (schema_request offline_env example_manager) =
     Inl (RequestException ''connection refused'')"
    by (simp add: offline_env_def)
  have c: "http (serving_env 503) (schema_request (serving_env 503) example_manager) =
     Inr \<lparr>status_code = 503, text_of = ''paths: {}''\<rparr>"
    by (simp add: serving_env_def)
  have d: "raise_for_status \<lparr>status_code = 503, text_of = ''paths: {}''\<rparr> = Inl (HTTPError 503)"
    by (simp add: raise_for_status_def)
  note t = download_schema_failure_keeps_cache [OF disjI1 [OF a] disjI1 [OF b]]
  from c d have g: "http (serving_env 503) (schema_request (serving_env 503) example_manager) =
        Inl (HTTPError 503) \<or>
      (\<exists>response. http (serving_env 503) (schema_request (serving_env 503) example_manager) =
          Inr response \<and> raise_for_status response = Inl (HTTPError 503))" by blast
  have h: "files (world_with_cache JNull) (schema_file example_manager) = None \<or> True" by simp
  note u = download_schema_failure_keeps_cache [OF h g]
  from a b c d t u show ?thesis by blast
qed


section \<open>Properties of the token fixtures\<close>

lemma requests_of_auth_token:
  "requests_sent (fst (auth_token ev url tok w)) =
     requests_sent w @ [auth_request ev url tok (SSL_VERIFY ev)]"
  by (simp add: auth_token_def Let_def log_def split: sum.splits)

lemma requests_of_fresh_auth_token:
  "requests_sent (fst (fresh_auth_token ev url tok w)) =
     requests_sent w @ [auth_request ev url tok False]"
  by (simp add: fresh_auth_token_def Let_def log_def split: sum.splits)

text \<open>
  Claim C10. When the auth endpoint answers with a status other than 200, \<open>auth_token\<close>
  logs an error and its result is still \<open>response.json()["access_token"]\<close> (the token, or
  the exception of the parse or of the lookup, never one for the status), while
  \<open>fresh_auth_token\<close> raises an \<open>Exception\<close> naming the status before it reads the body.
  \<open>fresh_auth_token\<close> sends its request with \<open>verify=False\<close> whatever \<open>SSL_VERIFY\<close> is;
  \<open>auth_token\<close> sends it with \<open>verify=SSL_VERIFY\<close>.
\<close>

theorem token_fixtures_on_error_status:
  "(\<forall>response. http ev (auth_request ev url tok (SSL_VERIFY ev)) = Inr response \<and>
       status_code response \<noteq> 200 \<longrightarrow>
       snd (auth_token ev url tok w) = access_token_of ev response \<and>
       logged (fst (auth_token ev url tok w)) =
         logged w @ [(INFO, ''Generating session access token...''),
                     (ERROR, ''Failed to generate token: '' @ str_int (status_code response))]) \<and>
   (\<forall>response. http ev (auth_request ev url tok False) = Inr response \<and>
       status_code response \<noteq> 200 \<longrightarrow>
       snd (fresh_auth_token ev url tok w) =
         Inl (PyException (''Failed to generate token: '' @ str_int (status_code response)))) \<and>
   map req_verify (requests_sent (fst (fresh_auth_token ev url tok w))) =
     map req_verify (requests_sent w) @ [False] \<and>
   map req_verify (requests_sent (fst (auth_token ev url tok w))) =
     map req_verify (requests_sent w) @ [SSL_VERIFY ev]"
proof (intro conjI allI impI)
  fix response
  assume a: "http ev (auth_request ev url tok (SSL_VERIFY ev)) = Inr response \<and>
       status_code response \<noteq> 200"
  then show "snd (auth_token ev url tok w) = access_token_of ev response"
    by (simp add: auth_token_def Let_def)
  from a show "logged (fst (auth_token ev url tok w)) =
         logged w @ [(INFO, ''Generating session access token...''),
                     (ERROR, ''Failed to generate token: '' @ str_int (status_code response))]"
    by (simp add: auth_token_def Let_def log_def HTTP_OK_def)
next
  fix response
  assume "http ev (auth_request ev url tok False) = Inr response \<and> status_code response \<noteq> 200"
  then show "snd (fresh_auth_token ev url tok w) =
         Inl (PyException (''Failed to generate token: '' @ str_int (status_code response)))"
    by (simp add: fresh_auth_token_def Let_def HTTP_OK_def)
next
  show "map req_verify (requests_sent (fst (fresh_auth_token ev url tok w))) =
     map req_verify (requests_sent w) @ [False]"
    by (simp add: requests_of_fresh_auth_token auth_request_def)
  show "map req_verify (requests_sent (fst (auth_token ev url tok w))) =
     map req_verify (requests_sent w) @ [SSL_VERIFY ev]"
    by (simp add: requests_of_auth_token auth_request_def)
qed

lemma str_int_401: "str_int 401 = ''401''"
  by code_simp

text \<open>
  The theorem of C10 at a 401 answer whose body holds a token, with \<open>SSL_VERIFY\<close> true.
\<close>

theorem token_fixtures_on_error_status_witness:
  "SSL_VERIFY (auth_env 401) = True \<and>
   http (auth_env 401) (auth_request (auth_env 401) ''https://host'' ''r'' True) =
     Inr \<lparr>status_code = 401, text_of = token_body\<rparr> \<and>
   http (auth_env 401) (auth_request (auth_env 401) ''https://host'' ''r'' False) =
     Inr \<lparr>status_code = 401, text_of = token_body\<rparr> \<and>
   snd (auth_token (auth_env 401) ''https://host'' ''r'' empty_world) = Inr (JStr ''abc'') \<and>
   logged (fst (auth_token (auth_env 401) ''https://host'' ''r'' empty_world)) =
     [(INFO, ''Generating session access token...''), (ERROR, ''Failed to generate token: 401'')] \<and>
   snd (fresh_auth_token (auth_env 401) ''https://host'' ''r'' empty_world) =
     Inl (PyException ''Failed to generate token: 401'') \<and>
   map req_verify (requests_sent (fst (fresh_auth_token (auth_env 401) ''https://host'' ''r'' empty_world))) =
     [False] \<and>
   map req_verify (requests_sent (fst (auth_token (auth_env 401) ''https://host'' ''r'' empty_world))) =
     [True]"
proof -
  have v: "SSL_VERIFY (auth_env 401) = True"
    by (simp add: auth_env_def offline_env_def)
  have a: "http (auth_env 401) (auth_request (auth_env 401) ''https://host'' ''r'' True) =
     Inr \<lparr>status_code = 401, text_of = token_body\<rparr>"
    by (simp add: auth_env_def)
  have b: "http (auth_env 401) (auth_request (auth_env 401) ''https://host'' ''r'' False) =
     Inr \<lparr>status_code = 401, text_of = token_body\<rparr>"
    by (simp add: auth_env_def)
  have c: "access_token_of (auth_env 401) \<lparr>status_code = 401, text_of = token_body\<rparr> = Inr (JStr ''abc'')"
    by (simp add: access_token_of_def auth_env_def)
  have e: "logged empty_world = [] \<and> requests_sent empty_world = []"
    by (simp add: empty_world_def)
  note t = token_fixtures_on_error_status
    [of "auth_env 401" "''https://host''" "''r''" empty_world]
  from t v a have r1: "snd (auth_token (auth_env 401) ''https://host'' ''r'' empty_world) =
       access_token_of (auth_env 401) \<lparr>status_code = 401, text_of = token_body\<rparr> \<and>
     logged (fst (auth_token (auth_env 401) ''https://host'' ''r'' empty_world)) =
       logged empty_world @ [(INFO, ''Generating session access token...''),
         (ERROR, ''Failed to generate token: '' @ str_int 401)]"
    by simp
  from t b have r2: "snd (fresh_auth_token (auth_env 401) ''https://host'' ''r'' empty_world) =
       Inl (PyException (''Failed to generate token: '' @ str_int 401))"
    by simp
  from t v e have r3: "map req_verify (requests_sent (fst (fresh_auth_token (auth_env 401) ''https://host'' ''r'' empty_world))) =
       [False] \<and>
     map req_verify (requests_sent (fst (auth_token (auth_env 401) ''https://host'' ''r'' empty_world))) =
       [True]"
    by simp
  from v a b r1 r2 r3 show ?thesis
    by (simp add: c e str_int_401)
qed

end
